theory Spec2Isabelle
  imports Main "HOL-Library.Sublist"
begin

section \<open>JavaScript values used by the application\<close>

text \<open>
  The fields probed on SDK objects are strings that may be missing: a missing, \<open>null\<close> or
  \<open>undefined\<close> field is \<open>None\<close>. A value is truthy when it is present and not the empty
  string; \<open>a || b\<close> is the left operand when that is truthy and the right operand otherwise.
\<close>

definition truthy :: "string option \<Rightarrow> bool" where
  "truthy v = (case v of None \<Rightarrow> False | Some s \<Rightarrow> s \<noteq> [])"

definition js_or :: "string option \<Rightarrow> string option \<Rightarrow> string option" where
  "js_or a b = (if truthy a then a else b)"

text \<open>\<open>a || 'literal'\<close>, where the right operand is a string literal.\<close>

definition js_or_default :: "string option \<Rightarrow> string \<Rightarrow> string" where
  "js_or_default a d = (case a of None \<Rightarrow> d | Some s \<Rightarrow> if s \<noteq> [] then s else d)"

text \<open>
  \<open>String.prototype.toLowerCase\<close> on the letters \<open>A\<close> to \<open>Z\<close>; every other byte is kept
  (strings are byte lists, and no character outside ASCII lowers to an ASCII letter of
  \<open>cancel\<close>).
\<close>

definition lower_char :: "char \<Rightarrow> char" where
  "lower_char c =
     (case map_of (zip ''ABCDEFGHIJKLMNOPQRSTUVWXYZ'' ''abcdefghijklmnopqrstuvwxyz'') c of
        None \<Rightarrow> c
      | Some l \<Rightarrow> l)"

definition toLowerCase :: "string \<Rightarrow> string" where
  "toLowerCase s = map lower_char s"

text \<open>\<open>s.includes(t)\<close>: \<open>t\<close> occurs in \<open>s\<close> as a contiguous run.\<close>

fun js_includes :: "string \<Rightarrow> string \<Rightarrow> bool" where
  "js_includes [] t = (t = [])"
| "js_includes (c # cs) t = (prefix t (c # cs) \<or> js_includes cs t)"

text \<open>
  \<open>String.prototype.trim\<close>. Strings are UTF-8 byte lists, so each white-space or line
  terminator character of ECMAScript is the byte sequence that encodes it: U+0009 to
  U+000D, U+0020, U+00A0, U+1680, U+2000 to U+200A, U+2028, U+2029, U+202F, U+205F,
  U+3000 and U+FEFF.
\<close>

definition white_space :: "string list" where
  "white_space =
     [[CHR 0x09], [CHR 0x0A], [CHR 0x0B], [CHR 0x0C], [CHR 0x0D], [CHR 0x20],
      [CHR 0xC2, CHR 0xA0],
      [CHR 0xE1, CHR 0x9A, CHR 0x80],
      [CHR 0xE2, CHR 0x80, CHR 0x80], [CHR 0xE2, CHR 0x80, CHR 0x81],
      [CHR 0xE2, CHR 0x80, CHR 0x82], [CHR 0xE2, CHR 0x80, CHR 0x83],
      [CHR 0xE2, CHR 0x80, CHR 0x84], [CHR 0xE2, CHR 0x80, CHR 0x85],
      [CHR 0xE2, CHR 0x80, CHR 0x86], [CHR 0xE2, CHR 0x80, CHR 0x87],
      [CHR 0xE2, CHR 0x80, CHR 0x88], [CHR 0xE2, CHR 0x80, CHR 0x89],
      [CHR 0xE2, CHR 0x80, CHR 0x8A],
      [CHR 0xE2, CHR 0x80, CHR 0xA8], [CHR 0xE2, CHR 0x80, CHR 0xA9],
      [CHR 0xE2, CHR 0x80, CHR 0xAF],
      [CHR 0xE2, CHR 0x81, CHR 0x9F],
      [CHR 0xE3, CHR 0x80, CHR 0x80],
      [CHR 0xEF, CHR 0xBB, CHR 0xBF]]"

text \<open>
  White space is removed from the start, one character at a time; a string of \<open>n\<close> bytes
  has at most \<open>n\<close> of them, so \<open>n\<close> rounds are enough. The end is the start of the
  reversed string, with each sequence reversed.
\<close>

primrec strip_start :: "string list \<Rightarrow> nat \<Rightarrow> string \<Rightarrow> string" where
  "strip_start ws 0 s = s"
| "strip_start ws (Suc n) s =
     (case find (\<lambda>w. prefix w s) ws of
        None \<Rightarrow> s
      | Some w \<Rightarrow> strip_start ws n (drop (length w) s))"

definition trimStart :: "string \<Rightarrow> string" where
  "trimStart s = strip_start white_space (length s) s"

definition trimEnd :: "string \<Rightarrow> string" where
  "trimEnd s = rev (strip_start (map rev white_space) (length s) (rev s))"

definition trim :: "string \<Rightarrow> string" where
  "trim s = trimEnd (trimStart s)"

text \<open>
  A thrown value, with the three fields the handlers read; each is a string when it is
  present, as the SDK and \<open>Error\<close> have them.
\<close>

record js_error =
  message :: "string option"
  code :: "string option"
  errorCode :: "string option"

text \<open>\<open>new Error(msg)\<close>\<close>

definition new_Error :: "string \<Rightarrow> js_error" where
  "new_Error msg = \<lparr>message = Some msg, code = None, errorCode = None\<rparr>"

section \<open>The in-app purchase service\<close>

datatype Platform = Apple | Google | Web

text \<open>
  A package of the offering, with the three places a product identifier may stand. The
  entries of \<open>availablePackages\<close> are objects (a \<open>null\<close> entry would have no identifier and
  match no request).
\<close>

record product =
  product_identifier :: "string option"
  product_productIdentifier :: "string option"

record package =
  pkg_product :: "product option"
  pkg_identifier :: "string option"

text \<open>An entitlement of the customer info, with the fields the service reads.\<close>

record entitlement =
  productIdentifier :: "string option"
  expirationDate :: "string option"
  expiresDate :: "string option"

text \<open>
  \<open>customerInfo?.entitlements?.active\<close>: \<open>None\<close> when a link of the chain is missing,
  otherwise the entries of the object in the order \<open>Object.entries\<close> lists them (keys
  distinct); an entry's value may be \<open>null\<close>.
\<close>

type_synonym customer_info = "(string \<times> entitlement option) list option"

text \<open>The result of \<open>purchasePackage\<close>, with the five places a transaction id may stand.\<close>

record purchase_response =
  storeTransaction_transactionIdentifier :: "string option"
  storeTransaction_orderId :: "string option"
  transaction_transactionIdentifier :: "string option"
  transactionIdentifier :: "string option"
  customerInfo_originalPurchaseDate :: "string option"

datatype raw_payload = RawResult purchase_response | RawError js_error

record PurchaseResult =
  success :: bool
  productId :: "string option"
  transactionId :: "string option"
  platform :: Platform
  raw :: "raw_payload option"
  error :: "string option"

record RestoreResult =
  restored :: "string list"
  restore_error :: "string option"

record PremiumStatus =
  status_isPremium :: bool
  status_expiresAt :: "string option"

text \<open>The row of the \<open>profiles\<close> table the premium provider reads and writes.\<close>

record profile_row =
  is_premium :: bool
  premium_expires_at :: "string option"

record select_response =
  sel_data :: "profile_row option"
  sel_error :: "js_error option"

text \<open>
  Every call that leaves the application is recorded, in order: the dynamic import of the
  SDK module, the SDK calls, the two queries on the \<open>profiles\<close> table (by user id) and
  \<open>console.error\<close>.
\<close>

datatype event =
    ImportSdk
  | SetLogLevel
  | Configure string "string option"
  | GetOfferings
  | PurchasePackage package
  | RestorePurchases
  | GetCustomerInfo
  | ProfilesSelect string
  | ProfilesUpdate string profile_row
  | ConsoleError js_error

text \<open>
  What the world answers during one operation: the runtime (\<open>Capacitor\<close>), the build's
  environment variables, the outcome of each SDK call and table query (\<open>Inl\<close> is a
  rejected promise), and the three readings of \<open>Date\<close>: \<open>new Date(s)\<close> as milliseconds
  (\<open>None\<close> is an invalid date), the current time, and \<open>new Date(s).toISOString()\<close>
  (which throws on an invalid date).
\<close>

record env =
  capacitor_getPlatform :: string
  capacitor_isNativePlatform :: bool
  VITE_REVENUECAT_PUBLIC_GOOGLE_KEY :: "string option"
  VITE_REVENUECAT_PUBLIC_APPLE_KEY :: "string option"
  import_result :: "js_error + unit"
  setLogLevel_result :: "js_error + unit"
  configure_result :: "js_error + unit"
  getOfferings_result :: "js_error + package list option"
  purchasePackage_result :: "package \<Rightarrow> js_error + purchase_response"
  restorePurchases_result :: "js_error + customer_info"
  getCustomerInfo_result :: "js_error + customer_info"
  select_result :: "js_error + select_response"
  update_result :: "js_error + unit"
  date_value :: "string \<Rightarrow> int option"
  date_now :: int
  date_toISOString :: "string \<Rightarrow> js_error + string"

text \<open>The fields of the class \<open>IAPService\<close>, and the calls made so far.\<close>

record IAPService =
  isNative :: bool
  currentPlatform :: Platform
  configured :: bool
  appUserId :: "string option"
  trace :: "event list"

definition getCurrentPlatform :: "string \<Rightarrow> Platform" where
  "getCurrentPlatform p =
     (if p = ''ios'' then Apple else if p = ''android'' then Google else Web)"

definition new_IAPService :: "env \<Rightarrow> IAPService" where
  "new_IAPService e =
     \<lparr>isNative = capacitor_isNativePlatform e,
      currentPlatform = getCurrentPlatform (capacitor_getPlatform e),
      configured = False, appUserId = None, trace = []\<rparr>"

definition isAvailable :: "'a IAPService_scheme \<Rightarrow> bool" where
  "isAvailable s = isNative s"

definition setAppUserId :: "string option \<Rightarrow> 'a IAPService_scheme \<Rightarrow> 'a IAPService_scheme" where
  "setAppUserId uid s =
     s\<lparr>appUserId := (if truthy uid then uid else None), configured := False\<rparr>"

definition getApiKey :: "env \<Rightarrow> 'a IAPService_scheme \<Rightarrow> string option" where
  "getApiKey e s =
     (if currentPlatform s = Google then VITE_REVENUECAT_PUBLIC_GOOGLE_KEY e
      else if currentPlatform s = Apple then VITE_REVENUECAT_PUBLIC_APPLE_KEY e
      else None)"

definition record_call :: "event \<Rightarrow> 'a IAPService_scheme \<Rightarrow> 'a IAPService_scheme" where
  "record_call ev s = s\<lparr>trace := trace s @ [ev]\<rparr>"

definition sdk :: "env \<Rightarrow> 'a IAPService_scheme \<Rightarrow> (js_error + unit) \<times> 'a IAPService_scheme" where
  "sdk e s = (import_result e, record_call ImportSdk s)"

definition missing_key_error :: "Platform \<Rightarrow> js_error" where
  "missing_key_error p =
     new_Error (''[IAP] Missing RevenueCat API key. Set VITE_REVENUECAT_PUBLIC_''
                @ (if p = Google then ''GOOGLE'' else ''APPLE'') @ ''_KEY in .env'')"

text \<open>
  \<open>ensureConfigured\<close>: nothing on a non-native runtime or when already configured; a
  missing key throws; the failure of \<open>setLogLevel\<close> is ignored; \<open>configured\<close> is set only
  after \<open>configure\<close> has resolved.
\<close>

definition ensureConfigured ::
  "env \<Rightarrow> 'a IAPService_scheme \<Rightarrow> (js_error + unit) \<times> 'a IAPService_scheme" where
  "ensureConfigured e s =
     (if \<not> isNative s then (Inr (), s)
      else if configured s then (Inr (), s)
      else case getApiKey e s of
        None \<Rightarrow> (Inl (missing_key_error (currentPlatform s)), s)
      | Some apiKey \<Rightarrow>
          if apiKey = [] then (Inl (missing_key_error (currentPlatform s)), s)
          else (case sdk e s of
            (Inl err, s1) \<Rightarrow> (Inl err, s1)
          | (Inr _, s1) \<Rightarrow>
              let s2 = (case setLogLevel_result e of
                          Inl _ \<Rightarrow> record_call SetLogLevel s1
                        | Inr _ \<Rightarrow> record_call SetLogLevel s1);
                  s3 = record_call (Configure apiKey (appUserId s2)) s2
              in (case configure_result e of
                    Inl err \<Rightarrow> (Inl err, s3)
                  | Inr _ \<Rightarrow> (Inr (), s3\<lparr>configured := True\<rparr>))))"

text \<open>\<open>p?.product?.identifier || p?.product?.productIdentifier || p?.identifier\<close>\<close>

definition package_pid :: "package \<Rightarrow> string option" where
  "package_pid p =
     js_or (js_or (case pkg_product p of None \<Rightarrow> None | Some pr \<Rightarrow> product_identifier pr)
                  (case pkg_product p of None \<Rightarrow> None | Some pr \<Rightarrow> product_productIdentifier pr))
           (pkg_identifier p)"

text \<open>\<open>offerings?.current?.availablePackages || []\<close>\<close>

definition availablePackages :: "package list option \<Rightarrow> package list" where
  "availablePackages offerings = (case offerings of None \<Rightarrow> [] | Some ps \<Rightarrow> ps)"

text \<open>
  \<open>getProducts\<close>. The last package with a given product id wins in \<open>byProductId\<close>. The
  fields of each result other than its id (title, prices, currency: lines 172 to 199,
  on floating-point numbers) are built by the parameter \<open>describe\<close>.
\<close>

definition byProductId :: "package list \<Rightarrow> (string \<rightharpoonup> package)" where
  "byProductId pkgs =
     foldl (\<lambda>m p. if truthy (package_pid p) then (case package_pid p of None \<Rightarrow> m | Some pid \<Rightarrow> m(pid \<mapsto> p)) else m)
           Map.empty pkgs"

fun collect_products ::
  "(string \<Rightarrow> package \<Rightarrow> 'p) \<Rightarrow> (string \<rightharpoonup> package) \<Rightarrow> string list \<Rightarrow> 'p list \<Rightarrow> 'p list" where
  "collect_products describe m [] results = results"
| "collect_products describe m (requestedId # ids) results =
     (case m requestedId of
        None \<Rightarrow> collect_products describe m ids results
      | Some pkg \<Rightarrow> collect_products describe m ids (results @ [describe requestedId pkg]))"

definition getProducts ::
  "(string \<Rightarrow> package \<Rightarrow> 'p) \<Rightarrow> env \<Rightarrow> string list \<Rightarrow> 'a IAPService_scheme
     \<Rightarrow> (js_error + 'p list) \<times> 'a IAPService_scheme" where
  "getProducts describe e productIds s =
     (if \<not> isNative s then (Inr [], s)
      else case ensureConfigured e s of
        (Inl err, s1) \<Rightarrow> (Inl err, s1)
      | (Inr _, s1) \<Rightarrow>
          (case sdk e s1 of
             (Inl err, s2) \<Rightarrow> (Inl err, s2)
           | (Inr _, s2) \<Rightarrow>
               let s3 = record_call GetOfferings s2 in
               (case getOfferings_result e of
                  Inl err \<Rightarrow> (Inl err, s3)
                | Inr offerings \<Rightarrow>
                    let pkgs = availablePackages offerings in
                    if pkgs = [] then (Inr [], s3)
                    else (Inr (collect_products describe (byProductId pkgs) productIds []), s3))))"

text \<open>The \<open>catch\<close> block of \<open>purchase\<close>.\<close>

definition purchase_catch :: "Platform \<Rightarrow> js_error \<Rightarrow> PurchaseResult" where
  "purchase_catch pf err =
     (let msg = js_or_default (message err) ''Purchase failed'';
          c = js_or (code err) (errorCode err)
      in if c = Some ''USER_CANCELLED'' \<or> js_includes (toLowerCase msg) ''cancel''
         then \<lparr>success = False, productId = None, transactionId = None, platform = pf,
               raw = None, error = Some ''Purchase cancelled''\<rparr>
         else \<lparr>success = False, productId = None, transactionId = None, platform = pf,
               raw = Some (RawError err), error = Some msg\<rparr>)"

definition response_transactionId :: "purchase_response \<Rightarrow> string option" where
  "response_transactionId r =
     (let t = js_or (js_or (js_or (js_or (js_or (storeTransaction_transactionIdentifier r)
                                               (storeTransaction_orderId r))
                                        (transaction_transactionIdentifier r))
                                 (transactionIdentifier r))
                          (customerInfo_originalPurchaseDate r))
                   (Some [])
      in if truthy t then t else None)"

definition not_found_message :: "string \<Rightarrow> string" where
  "not_found_message pid =
     ''Product not found in RevenueCat Offering: '' @ pid
       @ ''. Check RevenueCat Offering + product IDs.''"

text \<open>The \<open>try\<close> block of \<open>purchase\<close>: \<open>Inl\<close> is an exception thrown inside it.\<close>

definition purchase_try ::
  "env \<Rightarrow> string \<Rightarrow> 'a IAPService_scheme \<Rightarrow> (js_error + PurchaseResult) \<times> 'a IAPService_scheme" where
  "purchase_try e pid s =
     (let s1 = record_call GetOfferings s in
      case getOfferings_result e of
        Inl err \<Rightarrow> (Inl err, s1)
      | Inr offerings \<Rightarrow>
          (case find (\<lambda>p. package_pid p = Some pid) (availablePackages offerings) of
             None \<Rightarrow>
               (Inr \<lparr>success = False, productId = None, transactionId = None,
                     platform = currentPlatform s1, raw = None,
                     error = Some (not_found_message pid)\<rparr>, s1)
           | Some pkg \<Rightarrow>
               let s2 = record_call (PurchasePackage pkg) s1 in
               (case purchasePackage_result e pkg of
                  Inl err \<Rightarrow> (Inl err, s2)
                | Inr result \<Rightarrow>
                    (Inr \<lparr>success = True, productId = Some pid,
                          transactionId = response_transactionId result,
                          platform = currentPlatform s2, raw = Some (RawResult result),
                          error = None\<rparr>, s2))))"

text \<open>
  \<open>purchase\<close>: \<open>ensureConfigured\<close> and the import of the SDK are awaited before the
  \<open>try\<close> block, so what they throw rejects the promise \<open>purchase\<close> returns.
\<close>

definition purchase ::
  "env \<Rightarrow> string \<Rightarrow> 'a IAPService_scheme \<Rightarrow> (js_error + PurchaseResult) \<times> 'a IAPService_scheme" where
  "purchase e pid s =
     (if \<not> isNative s
      then (Inr \<lparr>success = False, productId = None, transactionId = None, platform = Web,
                 raw = None, error = Some ''Purchases are only available on mobile devices.''\<rparr>, s)
      else case ensureConfigured e s of
        (Inl err, s1) \<Rightarrow> (Inl err, s1)
      | (Inr _, s1) \<Rightarrow>
          (case sdk e s1 of
             (Inl err, s2) \<Rightarrow> (Inl err, s2)
           | (Inr _, s2) \<Rightarrow>
               (case purchase_try e pid s2 of
                  (Inl err, s3) \<Rightarrow> (Inr (purchase_catch (currentPlatform s3) err), s3)
                | (Inr r, s3) \<Rightarrow> (Inr r, s3))))"

text \<open>The loop of \<open>restorePurchases\<close> over the entries of the active entitlements.\<close>

fun restore_loop :: "(string \<times> entitlement option) list \<Rightarrow> string list \<Rightarrow> string list" where
  "restore_loop [] restoredProducts = restoredProducts"
| "restore_loop ((k, ent) # rest) restoredProducts =
     (case ent of
        None \<Rightarrow> restore_loop rest restoredProducts
      | Some en \<Rightarrow>
          (case productIdentifier en of
             None \<Rightarrow> restore_loop rest restoredProducts
           | Some pid \<Rightarrow>
               if pid \<noteq> [] then restore_loop rest (restoredProducts @ [pid])
               else restore_loop rest restoredProducts))"

definition restore_try ::
  "env \<Rightarrow> 'a IAPService_scheme \<Rightarrow> (js_error + RestoreResult) \<times> 'a IAPService_scheme" where
  "restore_try e s =
     (case ensureConfigured e s of
        (Inl err, s1) \<Rightarrow> (Inl err, s1)
      | (Inr _, s1) \<Rightarrow>
          (case sdk e s1 of
             (Inl err, s2) \<Rightarrow> (Inl err, s2)
           | (Inr _, s2) \<Rightarrow>
               let s3 = record_call RestorePurchases s2 in
               (case restorePurchases_result e of
                  Inl err \<Rightarrow> (Inl err, s3)
                | Inr customerInfo \<Rightarrow>
                    let active = (case customerInfo of None \<Rightarrow> [] | Some es \<Rightarrow> es) in
                    (Inr \<lparr>restored = restore_loop active [], restore_error = None\<rparr>, s3))))"

definition restorePurchases ::
  "env \<Rightarrow> 'a IAPService_scheme \<Rightarrow> (js_error + RestoreResult) \<times> 'a IAPService_scheme" where
  "restorePurchases e s =
     (if \<not> isNative s
      then (Inr \<lparr>restored = [], restore_error = Some ''Restore is only available on mobile devices''\<rparr>, s)
      else case restore_try e s of
        (Inl err, s1) \<Rightarrow>
          (Inr \<lparr>restored = [],
                restore_error = Some (js_or_default (message err) ''Failed to restore purchases'')\<rparr>, s1)
      | (Inr r, s1) \<Rightarrow> (Inr r, s1))"

text \<open>\<open>checkPremiumStatus\<close>: the entitlement named \<open>premium\<close> among the active ones.\<close>

definition premium_of :: "customer_info \<Rightarrow> entitlement option" where
  "premium_of customerInfo =
     (case customerInfo of
        None \<Rightarrow> None
      | Some es \<Rightarrow> (case map_of es ''premium'' of None \<Rightarrow> None | Some ent \<Rightarrow> ent))"

definition check_try ::
  "env \<Rightarrow> 'a IAPService_scheme \<Rightarrow> (js_error + PremiumStatus) \<times> 'a IAPService_scheme" where
  "check_try e s =
     (case ensureConfigured e s of
        (Inl err, s1) \<Rightarrow> (Inl err, s1)
      | (Inr _, s1) \<Rightarrow>
          (case sdk e s1 of
             (Inl err, s2) \<Rightarrow> (Inl err, s2)
           | (Inr _, s2) \<Rightarrow>
               let s3 = record_call GetCustomerInfo s2 in
               (case getCustomerInfo_result e of
                  Inl err \<Rightarrow> (Inl err, s3)
                | Inr customerInfo \<Rightarrow>
                    let premiumEntitlement = premium_of customerInfo;
                        expiresAt =
                          (case premiumEntitlement of
                             None \<Rightarrow> None
                           | Some en \<Rightarrow> js_or (expirationDate en) (expiresDate en))
                    in (Inr \<lparr>status_isPremium = (premiumEntitlement \<noteq> None),
                              status_expiresAt = (if truthy expiresAt then expiresAt else None)\<rparr>, s3))))"

definition checkPremiumStatus ::
  "env \<Rightarrow> 'a IAPService_scheme \<Rightarrow> (js_error + PremiumStatus) \<times> 'a IAPService_scheme" where
  "checkPremiumStatus e s =
     (if \<not> isNative s then (Inr \<lparr>status_isPremium = False, status_expiresAt = None\<rparr>, s)
      else case check_try e s of
        (Inl err, s1) \<Rightarrow>
          (Inr \<lparr>status_isPremium = False, status_expiresAt = None\<rparr>, record_call (ConsoleError err) s1)
      | (Inr r, s1) \<Rightarrow> (Inr r, s1))"

section \<open>The premium provider\<close>

text \<open>
  The state of \<open>PremiumProvider\<close>: its two state cells, and the module's one
  \<open>iapService\<close> they are resolved from.
\<close>

record PremiumProvider = IAPService +
  isPremium :: bool
  isLoading :: bool

record user =
  user_id :: string

text \<open>\<open>useState(false)\<close> and \<open>useState(true)\<close>, over a fresh service.\<close>

definition new_PremiumProvider :: "env \<Rightarrow> PremiumProvider" where
  "new_PremiumProvider e =
     \<lparr>isNative = capacitor_isNativePlatform e,
      currentPlatform = getCurrentPlatform (capacitor_getPlatform e),
      configured = False, appUserId = None, trace = [],
      isPremium = False, isLoading = True\<rparr>"

text \<open>
  \<open>data.is_premium && (!data.premium_expires_at || new Date(data.premium_expires_at) > new Date())\<close>;
  a comparison with an invalid date is false.
\<close>

definition isActive :: "env \<Rightarrow> profile_row \<Rightarrow> bool" where
  "isActive e d =
     (is_premium d \<and>
      (\<not> truthy (premium_expires_at d) \<or>
       (case premium_expires_at d of
          None \<Rightarrow> False
        | Some x \<Rightarrow> (case date_value e x of None \<Rightarrow> False | Some t \<Rightarrow> date_now e < t))))"

text \<open>
  The inner \<open>try\<close> block: the row is built first (\<open>toISOString\<close> may throw), then the
  update is sent.
\<close>

definition sync_try ::
  "env \<Rightarrow> string \<Rightarrow> PremiumStatus \<Rightarrow> PremiumProvider \<Rightarrow> (js_error + unit) \<times> PremiumProvider" where
  "sync_try e uid st s =
     (case (case status_expiresAt st of
              None \<Rightarrow> Inr None
            | Some x \<Rightarrow>
                if x = [] then Inr None
                else (case date_toISOString e x of Inl err \<Rightarrow> Inl err | Inr isoString \<Rightarrow> Inr (Some isoString))) of
        Inl err \<Rightarrow> (Inl err, s)
      | Inr expires \<Rightarrow>
          (update_result e,
           record_call (ProfilesUpdate uid \<lparr>is_premium = status_isPremium st,
                                             premium_expires_at = expires\<rparr>) s))"

text \<open>The outer \<open>try\<close> block of \<open>fetchPremiumStatus\<close>, for a signed-in user.\<close>

definition fetch_try ::
  "env \<Rightarrow> user \<Rightarrow> PremiumProvider \<Rightarrow> (js_error + unit) \<times> PremiumProvider" where
  "fetch_try e u s =
     (if isAvailable s then
        (case checkPremiumStatus e (setAppUserId (Some (user_id u)) s) of
           (Inl err, s1) \<Rightarrow> (Inl err, s1)
         | (Inr st, s1) \<Rightarrow>
             let s2 = s1\<lparr>isPremium := status_isPremium st\<rparr> in
             (case sync_try e (user_id u) st s2 of
                (Inl _, s3) \<Rightarrow> (Inr (), s3)
              | (Inr _, s3) \<Rightarrow> (Inr (), s3)))
      else
        (let s1 = record_call (ProfilesSelect (user_id u)) s in
         case select_result e of
           Inl err \<Rightarrow> (Inl err, s1)
         | Inr resp \<Rightarrow>
             (case sel_error resp of
                Some err \<Rightarrow> (Inl err, s1)
              | None \<Rightarrow>
                  (case sel_data resp of
                     None \<Rightarrow> (Inr (), s1)
                   | Some d \<Rightarrow> (Inr (), s1\<lparr>isPremium := isActive e d\<rparr>)))))"

text \<open>
  \<open>fetchPremiumStatus\<close>: the \<open>catch\<close> block logs the error and the \<open>finally\<close> block clears
  the loading flag. The provider runs it when the user changes, and again on
  \<open>refreshPremiumStatus\<close> and \<open>activatePremium\<close>, each time on the state the last run left.
\<close>

definition fetchPremiumStatus ::
  "env \<Rightarrow> user option \<Rightarrow> PremiumProvider \<Rightarrow> (js_error + unit) \<times> PremiumProvider" where
  "fetchPremiumStatus e usr s =
     (case usr of
        None \<Rightarrow> (Inr (), s\<lparr>isPremium := False, isLoading := False\<rparr>)
      | Some u \<Rightarrow>
          (case fetch_try e u s of
             (Inl err, s1) \<Rightarrow> (Inr (), (record_call (ConsoleError err) s1)\<lparr>isLoading := False\<rparr>)
           | (Inr _, s1) \<Rightarrow> (Inr (), s1\<lparr>isLoading := False\<rparr>)))"

section \<open>The sign-in page\<close>

datatype Mode = Signin | Signup

datatype auth_event =
    Toast string string
  | SignUpCall string string
  | SignInCall string string
  | Navigate string
  | ReloadAfter nat

record auth_env =
  signUp_result :: "js_error + unit"
  signIn_result :: "js_error + unit"

record Auth =
  mode :: Mode
  email :: string
  password :: string
  isSubmitting :: bool
  shown :: "auth_event list"

definition emit :: "auth_event \<Rightarrow> Auth \<Rightarrow> Auth" where
  "emit ev s = s\<lparr>shown := shown s @ [ev]\<rparr>"

text \<open>
  The \<open>try\<close> block of \<open>handleSubmit\<close>. The notifications, the two remote calls, the
  navigation and the reload scheduled after 50 ms are recorded in \<open>shown\<close>;
  \<open>e.preventDefault()\<close> has no effect on the page's state.
\<close>

definition submit_try :: "auth_env \<Rightarrow> Auth \<Rightarrow> (js_error + unit) \<times> Auth" where
  "submit_try e s =
     (if email s = [] \<or> password s = []
      then (Inr (), emit (Toast ''Missing info'' ''Please enter an email and password.'') s)
      else if mode s = Signup then
        (let s1 = emit (SignUpCall (trim (email s)) (password s)) s in
         case signUp_result e of
           Inl err \<Rightarrow> (Inl err, s1)
         | Inr _ \<Rightarrow>
             (Inr (),
              (emit (Toast ''Check your email''
                      ''We sent a confirmation email. After confirming, come back and sign in.'') s1)
              \<lparr>mode := Signin\<rparr>))
      else
        (let s1 = emit (SignInCall (trim (email s)) (password s)) s in
         case signIn_result e of
           Inl err \<Rightarrow> (Inl err, s1)
         | Inr _ \<Rightarrow> (Inr (), emit (ReloadAfter 50) (emit (Navigate ''/'') s1))))"

text \<open>
  \<open>handleSubmit\<close>: the \<open>catch\<close> block shows the error's message, or the fallback of the
  mode the form was submitted in; the \<open>finally\<close> block clears \<open>isSubmitting\<close>.
\<close>

definition handleSubmit :: "auth_env \<Rightarrow> Auth \<Rightarrow> Auth" where
  "handleSubmit e s =
     (case submit_try e (s\<lparr>isSubmitting := True\<rparr>) of
        (Inl err, s1) \<Rightarrow>
          (emit (Toast ''Authentication failed''
                  (js_or_default (message err)
                     (if mode s = Signup
                      then ''Could not create your account. Try a different email or a stronger password.''
                      else ''Could not sign in. Check your email/password and try again.''))) s1)
          \<lparr>isSubmitting := False\<rparr>
      | (Inr _, s1) \<Rightarrow> s1\<lparr>isSubmitting := False\<rparr>)"

section \<open>Notions the properties are stated with\<close>

text \<open>
  The product identifiers a restore reports: the \<open>productIdentifier\<close> of each active
  entitlement that carries one, in the order of the entries.
\<close>

definition carried_product :: "string \<times> entitlement option \<Rightarrow> string option" where
  "carried_product kv =
     (case snd kv of
        None \<Rightarrow> None
      | Some en \<Rightarrow> if truthy (productIdentifier en) then productIdentifier en else None)"

definition carried_products :: "(string \<times> entitlement option) list \<Rightarrow> string list" where
  "carried_products es = List.map_filter carried_product es"

text \<open>The remote calls of the sign-in page, and the \<open>configure\<close> calls of the service.\<close>

fun is_remote_call :: "auth_event \<Rightarrow> bool" where
  "is_remote_call (SignUpCall em pw) = True"
| "is_remote_call (SignInCall em pw) = True"
| "is_remote_call ev = False"

fun is_Configure :: "event \<Rightarrow> bool" where
  "is_Configure (Configure k uid) = True"
| "is_Configure ev = False"

text \<open>
  The operations of the service that reach the SDK, and the service as each leaves it
  (the products \<open>getProducts\<close> builds do not bear on it).
\<close>

datatype sdk_operation =
    OpGetProducts "string list"
  | OpPurchase string
  | OpRestorePurchases
  | OpCheckPremiumStatus

fun perform :: "env \<Rightarrow> sdk_operation \<Rightarrow> 'a IAPService_scheme \<Rightarrow> 'a IAPService_scheme" where
  "perform e (OpGetProducts ids) s = snd (getProducts (\<lambda>requestedId pkg. ()) e ids s)"
| "perform e (OpPurchase pid) s = snd (purchase e pid s)"
| "perform e OpRestorePurchases s = snd (restorePurchases e s)"
| "perform e OpCheckPremiumStatus s = snd (checkPremiumStatus e s)"

definition configure_calls :: "'a IAPService_scheme \<Rightarrow> event list" where
  "configure_calls s = filter is_Configure (trace s)"

section \<open>Concrete runs\<close>

text \<open>
  An Android device with a Google key, a default offering of one monthly package, a
  customer with the \<open>premium\<close> entitlement expiring on 2099-01-01, a store that cancels
  the purchase, and a \<open>profiles\<close> table whose update fails.
\<close>

definition premium_entitlement :: entitlement where
  "premium_entitlement =
     \<lparr>productIdentifier = Some ''cozy_premium_monthly'',
      expirationDate = Some ''2099-01-01'', expiresDate = None\<rparr>"

definition monthly_package :: package where
  "monthly_package =
     \<lparr>pkg_product = Some \<lparr>product_identifier = Some ''cozy_premium_monthly'',
                            product_productIdentifier = None\<rparr>,
      pkg_identifier = Some ''$rc_monthly''\<rparr>"

definition cancelled_error :: js_error where
  "cancelled_error =
     \<lparr>message = Some ''User Cancelled the purchase'', code = Some ''1'', errorCode = None\<rparr>"

definition android_env :: env where
  "android_env =
     \<lparr>capacitor_getPlatform = ''android'', capacitor_isNativePlatform = True,
      VITE_REVENUECAT_PUBLIC_GOOGLE_KEY = Some ''goog_key'',
      VITE_REVENUECAT_PUBLIC_APPLE_KEY = None,
      import_result = Inr (), setLogLevel_result = Inr (), configure_result = Inr (),
      getOfferings_result = Inr (Some [monthly_package]),
      purchasePackage_result = (\<lambda>p. Inl cancelled_error),
      restorePurchases_result =
        Inr (Some [(''premium'', Some premium_entitlement), (''legacy'', None)]),
      getCustomerInfo_result = Inr (Some [(''premium'', Some premium_entitlement)]),
      select_result = Inr \<lparr>sel_data = None, sel_error = None\<rparr>,
      update_result = Inl (new_Error ''Failed to fetch''),
      date_value =
        (\<lambda>s. if s = ''2099-01-01'' then Some 4070908800000
             else if s = ''2020-01-01'' then Some 1577836800000 else None),
      date_now = 1793664000000,
      date_toISOString =
        (\<lambda>s. if s = ''2099-01-01'' then Inr ''2099-01-01T00:00:00.000Z''
             else Inl (new_Error ''Invalid time value''))\<rparr>"

text \<open>The same device built without its API key.\<close>

definition android_env_no_key :: env where
  "android_env_no_key = android_env\<lparr>VITE_REVENUECAT_PUBLIC_GOOGLE_KEY := None\<rparr>"

text \<open>
  A browser whose \<open>profiles\<close> row says premium with no expiry; the same browser when the
  read is rejected, and when the row is gone.
\<close>

definition web_env :: env where
  "web_env =
     android_env\<lparr>capacitor_getPlatform := ''web'', capacitor_isNativePlatform := False,
       VITE_REVENUECAT_PUBLIC_GOOGLE_KEY := None,
       select_result :=
         Inr \<lparr>sel_data = Some \<lparr>is_premium = True, premium_expires_at = None\<rparr>,
              sel_error = None\<rparr>\<rparr>"

definition web_env_read_fails :: env where
  "web_env_read_fails = web_env\<lparr>select_result := Inl (new_Error ''Failed to fetch'')\<rparr>"

definition web_env_no_row :: env where
  "web_env_no_row = web_env\<lparr>select_result := Inr \<lparr>sel_data = None, sel_error = None\<rparr>\<rparr>"

text \<open>The browser when the row says premium until 2020-01-01, long past.\<close>

definition web_env_expired :: env where
  "web_env_expired =
     web_env\<lparr>select_result :=
       Inr \<lparr>sel_data = Some \<lparr>is_premium = True, premium_expires_at = Some ''2020-01-01''\<rparr>,
            sel_error = None\<rparr>\<rparr>"

text \<open>The Android device when the customer info cannot be fetched.\<close>

text \<open>The Android device when the SDK module cannot be loaded.\<close>

definition android_env_import_fails :: env where
  "android_env_import_fails =
     android_env\<lparr>import_result := Inl (new_Error ''Failed to fetch dynamically imported module'')\<rparr>"

definition android_env_query_fails :: env where
  "android_env_query_fails =
     android_env\<lparr>getCustomerInfo_result := Inl (new_Error ''Network error'')\<rparr>"

definition user1 :: user where
  "user1 = \<lparr>user_id = ''u1''\<rparr>"

text \<open>
  The service after the premium provider has resolved \<open>u1\<close> on the Android device, and
  the provider in the browser after it has resolved \<open>u1\<close> from the premium row.
\<close>

definition configured_for_u1 :: IAPService where
  "configured_for_u1 =
     snd (ensureConfigured android_env (setAppUserId (Some ''u1'') (new_IAPService android_env)))"

definition premium_web_provider :: PremiumProvider where
  "premium_web_provider =
     snd (fetchPremiumStatus web_env (Some user1) (new_PremiumProvider web_env))"

definition premium_android_provider :: PremiumProvider where
  "premium_android_provider =
     snd (fetchPremiumStatus android_env (Some user1) (new_PremiumProvider android_env))"

definition signup_form :: Auth where
  "signup_form =
     \<lparr>mode = Signup, email = ''a@b.com'', password = ''x'', isSubmitting = False, shown = []\<rparr>"

definition signin_form_no_password :: Auth where
  "signin_form_no_password =
     \<lparr>mode = Signin, email = ''a@b.com'', password = [], isSubmitting = False, shown = []\<rparr>"

definition auth_ok :: auth_env where
  "auth_ok = \<lparr>signUp_result = Inr (), signIn_result = Inr ()\<rparr>"

section \<open>Supporting lemmas\<close>

subsection \<open>Strings\<close>

text \<open>
  \<open>includes\<close> is the contiguous-sublist relation, and lowering commutes with it.
\<close>

lemma js_includes_sublist: "js_includes s t \<longleftrightarrow> sublist t s"
  by (induction s) (simp_all add: sublist_Cons_right)

lemma includes_lowered:
  "js_includes (toLowerCase m) t \<longleftrightarrow> (\<exists>u. sublist u m \<and> toLowerCase u = t)"
proof
  assume "js_includes (toLowerCase m) t"
  then have "sublist t (map lower_char m)"
    by (simp add: js_includes_sublist toLowerCase_def)
  then obtain u where "sublist u m" and "t = map lower_char u"
    using sublist_map_rightE by blast
  then show "\<exists>u. sublist u m \<and> toLowerCase u = t"
    by (auto simp: toLowerCase_def)
next
  assume "\<exists>u. sublist u m \<and> toLowerCase u = t"
  then obtain u where "sublist u m" and "toLowerCase u = t"
    by blast
  then have "sublist t (toLowerCase m)"
    unfolding toLowerCase_def using map_mono_sublist by blast
  then show "js_includes (toLowerCase m) t"
    by (simp add: js_includes_sublist)
qed

lemma fallback_not_cancel: "\<not> js_includes (toLowerCase ''Purchase failed'') ''cancel''"
  by (simp add: toLowerCase_def lower_char_def)

lemma message_cancel:
  "js_includes (toLowerCase (js_or_default (message err) ''Purchase failed'')) ''cancel''
     \<longleftrightarrow> (\<exists>m u. message err = Some m \<and> sublist u m \<and> toLowerCase u = ''cancel'')"
proof (cases "message err")
  case None
  then have "js_or_default (message err) ''Purchase failed'' = ''Purchase failed''"
    by (simp add: js_or_default_def)
  with None fallback_not_cancel show ?thesis
    by simp
next
  case (Some m)
  show ?thesis
  proof (cases "m = []")
    case True
    with Some have lhs: "js_or_default (message err) ''Purchase failed'' = ''Purchase failed''"
      by (simp add: js_or_default_def)
    have "\<not> (\<exists>m u. message err = Some m \<and> sublist u m \<and> toLowerCase u = ''cancel'')"
    proof
      assume "\<exists>m u. message err = Some m \<and> sublist u m \<and> toLowerCase u = ''cancel''"
      then obtain u where "sublist u []" and low: "toLowerCase u = ''cancel''"
        using Some True by auto
      then have "u = []"
        by simp
      with low show False
        by (simp add: toLowerCase_def)
    qed
    with lhs fallback_not_cancel show ?thesis
      by simp
  next
    case False
    with Some have "js_or_default (message err) ''Purchase failed'' = m"
      by (simp add: js_or_default_def)
    with Some show ?thesis
      by (simp add: includes_lowered)
  qed
qed

lemma expiry_field:
  assumes "expirationDate en = Some ''2099-01-01''
      \<or> (\<not> truthy (expirationDate en) \<and> expiresDate en = Some ''2099-01-01'')"
  shows "js_or (expirationDate en) (expiresDate en) = Some ''2099-01-01''"
  using assms by (auto simp add: js_or_def truthy_def)

text \<open>
  \<open>trim\<close> on two strings, and the rounds of \<open>trimStart\<close> are enough: no white space is
  left at the start.
\<close>

lemma trim_plain: "trim ''a@b.com'' = ''a@b.com''"
  by (simp add: trim_def trimStart_def trimEnd_def white_space_def)

lemma trim_unicode:
  "trim ([CHR 0xC2, CHR 0xA0] @ '' a@b.com'' @ [CHR 0x09, CHR 0xE2, CHR 0x80, CHR 0xA8]) = ''a@b.com''"
  by (simp add: trim_def trimStart_def trimEnd_def white_space_def)

lemma strip_start_done:
  assumes "[] \<notin> set ws" and "length s \<le> n"
  shows "find (\<lambda>w. prefix w (strip_start ws n s)) ws = None"
  using assms(2)
proof (induction n arbitrary: s)
  case 0
  then have "s = []"
    by simp
  with assms(1) show ?case
    by (auto simp add: find_None_iff)
next
  case (Suc n)
  show ?case
  proof (cases "find (\<lambda>w. prefix w s) ws")
    case None
    then show ?thesis
      by simp
  next
    case (Some w)
    then have "w \<in> set ws" and "prefix w s"
      by (auto simp add: find_Some_iff)
    with assms(1) have "w \<noteq> []"
      by auto
    moreover from \<open>prefix w s\<close> \<open>w \<noteq> []\<close> have "s \<noteq> []"
      by auto
    ultimately have "length (drop (length w) s) \<le> n"
      using Suc.prems by (cases w) auto
    then have "find (\<lambda>v. prefix v (strip_start ws n (drop (length w) s))) ws = None"
      by (rule Suc.IH)
    with Some show ?thesis
      by simp
  qed
qed

lemma trimStart_done: "find (\<lambda>w. prefix w (trimStart s)) white_space = None"
  unfolding trimStart_def
  by (rule strip_start_done) (simp_all add: white_space_def)

subsection \<open>The purchase service\<close>

text \<open>
  The loop of \<open>restorePurchases\<close> appends the carried product identifiers.
\<close>

lemma carried_products_Cons:
  "carried_products (kv # es) =
     (case carried_product kv of None \<Rightarrow> carried_products es | Some pid \<Rightarrow> pid # carried_products es)"
  unfolding carried_products_def by simp

lemma restore_loop_acc: "restore_loop es acc = acc @ carried_products es"
proof (induction es arbitrary: acc)
  case Nil
  show ?case
    by (simp add: carried_products_def)
next
  case (Cons kv es)
  obtain k ent where kv: "kv = (k, ent)"
    by (cases kv)
  show ?case
  proof (cases ent)
    case None
    with kv Cons show ?thesis
      by (simp add: carried_products_Cons carried_product_def)
  next
    case (Some en)
    show ?thesis
    proof (cases "productIdentifier en")
      case None
      with kv Some Cons show ?thesis
        by (simp add: carried_products_Cons carried_product_def truthy_def)
    next
      case (Some pid)
      with kv \<open>ent = Some en\<close> Cons show ?thesis
        by (simp add: carried_products_Cons carried_product_def truthy_def)
    qed
  qed
qed

text \<open>
  What the operations leave unchanged, and what a configured service does.
\<close>

lemma ensureConfigured_frame:
  "isNative (snd (ensureConfigured e s)) = isNative s
   \<and> currentPlatform (snd (ensureConfigured e s)) = currentPlatform s
   \<and> appUserId (snd (ensureConfigured e s)) = appUserId s"
  by (simp add: ensureConfigured_def sdk_def record_call_def Let_def split: option.splits sum.splits)

lemma purchase_try_platform:
  "currentPlatform (snd (purchase_try e pid s)) = currentPlatform s"
  by (simp add: purchase_try_def record_call_def Let_def split: option.splits sum.splits)

lemma getApiKey_setAppUserId: "getApiKey e (setAppUserId uid s) = getApiKey e s"
  by (simp add: getApiKey_def setAppUserId_def)

lemma configured_noop: "configured s \<Longrightarrow> ensureConfigured e s = (Inr (), s)"
  by (simp add: ensureConfigured_def)

lemma configured_noop_all:
  "configured s \<Longrightarrow> foldl (\<lambda>st e. snd (ensureConfigured e st)) s es = s"
  by (induction es) (simp_all add: configured_noop)

text \<open>
  Every operation leaves the configuration, the \<open>configure\<close> calls made and the associated
  identity as its \<open>ensureConfigured\<close> left them; \<open>ensureConfigured\<close> calls \<open>configure\<close> at most
  once.
\<close>

lemma record_call_other:
  assumes "\<not> is_Configure ev"
  shows "configured (record_call ev s) = configured s"
    and "configure_calls (record_call ev s) = configure_calls s"
    and "appUserId (record_call ev s) = appUserId s"
  using assms by (simp_all add: record_call_def configure_calls_def)

lemma purchase_try_configuration:
  "configured (snd (purchase_try e pid s)) = configured s
   \<and> configure_calls (snd (purchase_try e pid s)) = configure_calls s
   \<and> appUserId (snd (purchase_try e pid s)) = appUserId s"
  by (simp add: purchase_try_def record_call_other Let_def split: option.splits sum.splits)

lemma ensureConfigured_non_native: "\<not> isNative s \<Longrightarrow> ensureConfigured e s = (Inr (), s)"
  by (simp add: ensureConfigured_def)

lemma getProducts_configuration:
  "configured (snd (getProducts d e ids s)) = configured (snd (ensureConfigured e s))
   \<and> configure_calls (snd (getProducts d e ids s)) = configure_calls (snd (ensureConfigured e s))
   \<and> appUserId (snd (getProducts d e ids s)) = appUserId (snd (ensureConfigured e s))"
proof (cases "isNative s")
  case False
  then show ?thesis
    by (simp add: getProducts_def ensureConfigured_non_native)
next
  case True
  obtain r s1 where ens: "ensureConfigured e s = (r, s1)"
    by (cases "ensureConfigured e s")
  show ?thesis
  proof (cases r)
    case (Inl err)
    with True ens show ?thesis
      by (simp add: getProducts_def)
  next
    case (Inr u)
    with True ens show ?thesis
      by (cases "import_result e"; cases "getOfferings_result e")
         (simp_all add: getProducts_def sdk_def record_call_other Let_def)
  qed
qed

lemma purchase_configuration:
  "configured (snd (purchase e pid s)) = configured (snd (ensureConfigured e s))
   \<and> configure_calls (snd (purchase e pid s)) = configure_calls (snd (ensureConfigured e s))
   \<and> appUserId (snd (purchase e pid s)) = appUserId (snd (ensureConfigured e s))"
proof (cases "isNative s")
  case False
  then show ?thesis
    by (simp add: purchase_def ensureConfigured_non_native)
next
  case True
  obtain r s1 where ens: "ensureConfigured e s = (r, s1)"
    by (cases "ensureConfigured e s")
  show ?thesis
  proof (cases r)
    case (Inl err)
    with True ens show ?thesis
      by (simp add: purchase_def)
  next
    case (Inr u)
    show ?thesis
    proof (cases "import_result e")
      case (Inl err)
      with True ens Inr show ?thesis
        by (simp add: purchase_def sdk_def record_call_other)
    next
      case imp: (Inr v)
      let ?s2 = "record_call ImportSdk s1"
      obtain r3 s3 where t: "purchase_try e pid ?s2 = (r3, s3)"
        by (cases "purchase_try e pid ?s2")
      have "configured s3 = configured s1 \<and> configure_calls s3 = configure_calls s1
          \<and> appUserId s3 = appUserId s1"
        using purchase_try_configuration [of e pid ?s2] t by (simp add: record_call_other)
      with True ens Inr imp t show ?thesis
        by (cases r3) (simp_all add: purchase_def sdk_def)
    qed
  qed
qed

lemma restore_try_configuration:
  "configured (snd (restore_try e s)) = configured (snd (ensureConfigured e s))
   \<and> configure_calls (snd (restore_try e s)) = configure_calls (snd (ensureConfigured e s))
   \<and> appUserId (snd (restore_try e s)) = appUserId (snd (ensureConfigured e s))"
proof -
  obtain r s1 where ens: "ensureConfigured e s = (r, s1)"
    by (cases "ensureConfigured e s")
  show ?thesis
  proof (cases r)
    case (Inl err)
    with ens show ?thesis
      by (simp add: restore_try_def)
  next
    case (Inr u)
    with ens show ?thesis
      by (cases "import_result e"; cases "restorePurchases_result e")
         (simp_all add: restore_try_def sdk_def record_call_other Let_def)
  qed
qed

lemma restorePurchases_configuration:
  "configured (snd (restorePurchases e s)) = configured (snd (ensureConfigured e s))
   \<and> configure_calls (snd (restorePurchases e s)) = configure_calls (snd (ensureConfigured e s))
   \<and> appUserId (snd (restorePurchases e s)) = appUserId (snd (ensureConfigured e s))"
proof (cases "isNative s")
  case False
  then show ?thesis
    by (simp add: restorePurchases_def ensureConfigured_non_native)
next
  case True
  obtain r s1 where t: "restore_try e s = (r, s1)"
    by (cases "restore_try e s")
  with True restore_try_configuration [of e s] show ?thesis
    by (cases r) (simp_all add: restorePurchases_def)
qed

lemma check_try_configuration:
  "configured (snd (check_try e s)) = configured (snd (ensureConfigured e s))
   \<and> configure_calls (snd (check_try e s)) = configure_calls (snd (ensureConfigured e s))
   \<and> appUserId (snd (check_try e s)) = appUserId (snd (ensureConfigured e s))"
proof -
  obtain r s1 where ens: "ensureConfigured e s = (r, s1)"
    by (cases "ensureConfigured e s")
  show ?thesis
  proof (cases r)
    case (Inl err)
    with ens show ?thesis
      by (simp add: check_try_def)
  next
    case (Inr u)
    with ens show ?thesis
      by (cases "import_result e"; cases "getCustomerInfo_result e")
         (simp_all add: check_try_def sdk_def record_call_other Let_def)
  qed
qed

lemma checkPremiumStatus_configuration:
  "configured (snd (checkPremiumStatus e s)) = configured (snd (ensureConfigured e s))
   \<and> configure_calls (snd (checkPremiumStatus e s)) = configure_calls (snd (ensureConfigured e s))
   \<and> appUserId (snd (checkPremiumStatus e s)) = appUserId (snd (ensureConfigured e s))"
proof (cases "isNative s")
  case False
  then show ?thesis
    by (simp add: checkPremiumStatus_def ensureConfigured_non_native)
next
  case True
  obtain r s1 where t: "check_try e s = (r, s1)"
    by (cases "check_try e s")
  with True check_try_configuration [of e s] show ?thesis
    by (cases r) (simp_all add: checkPremiumStatus_def record_call_other)
qed

lemma perform_configuration:
  "configured (perform e op s) = configured (snd (ensureConfigured e s))
   \<and> configure_calls (perform e op s) = configure_calls (snd (ensureConfigured e s))
   \<and> appUserId (perform e op s) = appUserId (snd (ensureConfigured e s))"
proof (cases op)
  case (OpGetProducts ids)
  then show ?thesis
    using getProducts_configuration by simp
next
  case (OpPurchase pid)
  then show ?thesis
    using purchase_configuration by simp
next
  case OpRestorePurchases
  then show ?thesis
    using restorePurchases_configuration by simp
next
  case OpCheckPremiumStatus
  then show ?thesis
    using checkPremiumStatus_configuration by simp
qed

lemma ensureConfigured_configures:
  assumes "isNative s" and "\<not> configured s" and "getApiKey e s = Some k" and "k \<noteq> []"
    and "import_result e = Inr ()" and "configure_result e = Inr ()"
  shows "ensureConfigured e s =
           (Inr (), s\<lparr>trace := trace s @ [ImportSdk, SetLogLevel, Configure k (appUserId s)],
                      configured := True\<rparr>)"
  using assms by (simp add: ensureConfigured_def sdk_def record_call_def split: sum.splits)

lemma ensureConfigured_import_rejected:
  assumes "isNative s" and "\<not> configured s" and "getApiKey e s = Some k" and "k \<noteq> []"
    and "import_result e = Inl err"
  shows "ensureConfigured e s = (Inl err, s\<lparr>trace := trace s @ [ImportSdk]\<rparr>)"
  using assms by (simp add: ensureConfigured_def sdk_def record_call_def)

lemma ensureConfigured_at_most_once:
  "length (configure_calls (snd (ensureConfigured e s))) \<le> Suc (length (configure_calls s))"
proof (cases "isNative s \<and> \<not> configured s")
  case False
  then show ?thesis
    by (auto simp add: ensureConfigured_def)
next
  case True
  show ?thesis
  proof (cases "getApiKey e s")
    case None
    with True show ?thesis
      by (simp add: ensureConfigured_def)
  next
    case (Some k)
    with True show ?thesis
      by (cases "k = []"; cases "import_result e"; cases "setLogLevel_result e";
          cases "configure_result e")
         (simp_all add: ensureConfigured_def sdk_def record_call_def configure_calls_def)
  qed
qed

lemma perform_all_configured:
  assumes "configured s"
  shows "configured (foldl (\<lambda>st x. perform (fst x) (snd x) st) s ops)
    \<and> configure_calls (foldl (\<lambda>st x. perform (fst x) (snd x) st) s ops) = configure_calls s
    \<and> appUserId (foldl (\<lambda>st x. perform (fst x) (snd x) st) s ops) = appUserId s"
  using assms
proof (induction ops arbitrary: s)
  case Nil
  then show ?case
    by simp
next
  case (Cons x ops)
  let ?s1 = "perform (fst x) (snd x) s"
  have step: "configured ?s1 \<and> configure_calls ?s1 = configure_calls s \<and> appUserId ?s1 = appUserId s"
    using perform_configuration [of "fst x" "snd x" s] configured_noop [OF Cons.prems, of "fst x"]
      Cons.prems
    by simp
  then have "configured (foldl (\<lambda>st x. perform (fst x) (snd x) st) ?s1 ops)
    \<and> configure_calls (foldl (\<lambda>st x. perform (fst x) (snd x) st) ?s1 ops) = configure_calls ?s1
    \<and> appUserId (foldl (\<lambda>st x. perform (fst x) (snd x) st) ?s1 ops) = appUserId ?s1"
    using Cons.IH [of ?s1] by simp
  with step show ?case
    by simp
qed

text \<open>
  A product that is not in the offering gives a failure outcome that names it, once the
  service is configured.
\<close>

lemma purchase_product_not_in_catalog:
  assumes native: "isNative s"
    and conf: "fst (ensureConfigured e s) = Inr ()"
    and imp: "import_result e = Inr ()"
    and offs: "getOfferings_result e = Inr offerings"
    and missing: "find (\<lambda>p. package_pid p = Some pid) (availablePackages offerings) = None"
  shows "fst (purchase e pid s) =
           Inr \<lparr>success = False, productId = None, transactionId = None,
                platform = currentPlatform s, raw = None,
                error = Some (not_found_message pid)\<rparr>
         \<and> sublist pid (not_found_message pid)"
proof -
  obtain s1 where s1: "ensureConfigured e s = (Inr (), s1)"
    using conf by (cases "ensureConfigured e s") auto
  have pf: "currentPlatform s1 = currentPlatform s"
    using ensureConfigured_frame [of e s] s1 by simp
  have "fst (purchase e pid s) =
           Inr \<lparr>success = False, productId = None, transactionId = None,
                platform = currentPlatform s, raw = None,
                error = Some (not_found_message pid)\<rparr>"
    using native s1 imp offs missing pf
    by (simp add: purchase_def purchase_try_def sdk_def record_call_def)
  moreover have "sublist pid (not_found_message pid)"
    unfolding not_found_message_def by (rule sublist_appendI)
  ultimately show ?thesis
    by simp
qed

text \<open>
  The concrete runs, evaluated.
\<close>

lemma android_fresh_configures:
  "fst (ensureConfigured android_env (new_IAPService android_env)) = Inr ()"
  by (simp add: ensureConfigured_def new_IAPService_def android_env_def getApiKey_def
      getCurrentPlatform_def sdk_def record_call_def)

lemma configured_for_u1_eq:
  "configured_for_u1 =
     \<lparr>isNative = True, currentPlatform = Google, configured = True, appUserId = Some ''u1'',
      trace = [ImportSdk, SetLogLevel, Configure ''goog_key'' (Some ''u1'')]\<rparr>"
  by (simp add: configured_for_u1_def ensureConfigured_def setAppUserId_def new_IAPService_def
      android_env_def getApiKey_def getCurrentPlatform_def sdk_def record_call_def truthy_def)

subsection \<open>The premium provider\<close>

text \<open>
  \<open>fetchPremiumStatus\<close> always resolves and leaves the flag as its \<open>try\<close> block left it;
  what a failed native query and a failed read of the row leave behind.
\<close>

lemma fetch_try_web:
  assumes "\<not> isNative s"
  shows "fetch_try e u s =
     (case select_result e of
        Inl err \<Rightarrow> (Inl err, record_call (ProfilesSelect (user_id u)) s)
      | Inr resp \<Rightarrow>
          (case sel_error resp of
             Some err \<Rightarrow> (Inl err, record_call (ProfilesSelect (user_id u)) s)
           | None \<Rightarrow>
               (case sel_data resp of
                  None \<Rightarrow> (Inr (), record_call (ProfilesSelect (user_id u)) s)
                | Some d \<Rightarrow>
                    (Inr (), (record_call (ProfilesSelect (user_id u)) s)\<lparr>isPremium := isActive e d\<rparr>))))"
  using assms by (simp add: fetch_try_def isAvailable_def Let_def)

lemma fetchPremiumStatus_result:
  "fst (fetchPremiumStatus e (Some u) s) = Inr ()
   \<and> isLoading (snd (fetchPremiumStatus e (Some u) s)) = False
   \<and> isPremium (snd (fetchPremiumStatus e (Some u) s)) = isPremium (snd (fetch_try e u s))"
proof -
  obtain r s1 where f: "fetch_try e u s = (r, s1)"
    by (cases "fetch_try e u s")
  show ?thesis
    by (cases r) (simp_all add: fetchPremiumStatus_def f record_call_def)
qed

lemma fetch_native_failure:
  assumes native: "isNative s"
    and chk: "check_try e (setAppUserId (Some (user_id u)) s) = (Inl err, s1)"
  shows "snd (fetchPremiumStatus e (Some u) s) =
           s1\<lparr>trace := trace s1 @
                  [ConsoleError err,
                   ProfilesUpdate (user_id u) \<lparr>is_premium = False, premium_expires_at = None\<rparr>],
                isPremium := False, isLoading := False\<rparr>"
proof -
  let ?su = "setAppUserId (Some (user_id u)) s"
  have n0: "isNative ?su"
    using native by (simp add: setAppUserId_def)
  have cps: "checkPremiumStatus e ?su =
      (Inr \<lparr>status_isPremium = False, status_expiresAt = None\<rparr>, record_call (ConsoleError err) s1)"
    using n0 chk by (simp add: checkPremiumStatus_def)
  have ft: "fetch_try e u s =
      (Inr (), s1\<lparr>trace := trace s1 @
                  [ConsoleError err,
                   ProfilesUpdate (user_id u) \<lparr>is_premium = False, premium_expires_at = None\<rparr>],
                isPremium := False\<rparr>)"
    using native
    by (cases "update_result e")
       (simp_all add: fetch_try_def isAvailable_def cps sync_try_def record_call_def)
  show ?thesis
    by (simp add: fetchPremiumStatus_def ft)
qed

lemma fetch_web_failure:
  assumes web: "\<not> isNative s"
    and failed: "select_result e = Inl err
      \<or> (\<exists>resp. select_result e = Inr resp \<and> sel_error resp = Some err)"
  shows "snd (fetchPremiumStatus e (Some u) s) =
           s\<lparr>trace := trace s @ [ProfilesSelect (user_id u), ConsoleError err],
             isLoading := False\<rparr>"
proof -
  have "fetch_try e u s = (Inl err, record_call (ProfilesSelect (user_id u)) s)"
    using failed web by (auto simp add: fetch_try_web)
  then show ?thesis
    by (simp add: fetchPremiumStatus_def record_call_def)
qed

lemma isActive_spec:
  "isActive e d \<longleftrightarrow>
     is_premium d \<and>
     (premium_expires_at d = None \<or> premium_expires_at d = Some []
      \<or> (\<exists>x t. premium_expires_at d = Some x \<and> date_value e x = Some t \<and> date_now e < t))"
proof (cases "premium_expires_at d")
  case None
  then show ?thesis
    by (simp add: isActive_def truthy_def)
next
  case (Some x)
  then show ?thesis
    by (cases "date_value e x") (auto simp add: isActive_def truthy_def)
qed

lemma premium_web_provider_eq:
  "premium_web_provider =
     \<lparr>isNative = False, currentPlatform = Web, configured = False, appUserId = None,
      trace = [ProfilesSelect ''u1''], isPremium = True, isLoading = False\<rparr>"
  by (simp add: premium_web_provider_def fetchPremiumStatus_def fetch_try_def isAvailable_def
      new_PremiumProvider_def web_env_def android_env_def user1_def getCurrentPlatform_def
      record_call_def isActive_def truthy_def)

lemma premium_android_provider_eq:
  "premium_android_provider =
     \<lparr>isNative = True, currentPlatform = Google, configured = True, appUserId = Some ''u1'',
      trace = [ImportSdk, SetLogLevel, Configure ''goog_key'' (Some ''u1''), ImportSdk,
               GetCustomerInfo,
               ProfilesUpdate ''u1''
                 \<lparr>is_premium = True, premium_expires_at = Some ''2099-01-01T00:00:00.000Z''\<rparr>],
      isPremium = True, isLoading = False\<rparr>"
  by (simp add: premium_android_provider_def fetchPremiumStatus_def fetch_try_def isAvailable_def
      checkPremiumStatus_def check_try_def ensureConfigured_def setAppUserId_def sync_try_def
      premium_of_def premium_entitlement_def js_or_def
      new_PremiumProvider_def android_env_def user1_def getCurrentPlatform_def getApiKey_def
      sdk_def record_call_def truthy_def new_Error_def)

section \<open>Resolving the premium flag\<close>

text \<open>
  C1, as the code has it. For a signed-in user \<open>fetchPremiumStatus\<close> always resolves and
  clears the loading flag. When the native query fails (in the configuration, in the
  import of the SDK or in \<open>getCustomerInfo\<close>), the error is logged, the flag becomes false
  and the advisory update is sent with \<open>false\<close> and no expiry. When the read of the
  \<open>profiles\<close> row fails (a rejected promise or an error in the response), the error is
  logged and nothing else changes: the flag keeps the value it had before the call.
\<close>

theorem fetchPremiumStatus_failure_policy:
  "fst (fetchPremiumStatus e (Some u) s) = Inr ()
   \<and> isLoading (snd (fetchPremiumStatus e (Some u) s)) = False
   \<and> (\<forall>err. isNative s
          \<and> fst (ensureConfigured e (setAppUserId (Some (user_id u)) s)) = Inl err
        \<longrightarrow> isPremium (snd (fetchPremiumStatus e (Some u) s)) = False
          \<and> trace (snd (fetchPremiumStatus e (Some u) s)) =
              trace (snd (ensureConfigured e (setAppUserId (Some (user_id u)) s)))
              @ [ConsoleError err,
                 ProfilesUpdate (user_id u) \<lparr>is_premium = False, premium_expires_at = None\<rparr>])
   \<and> (\<forall>err. isNative s
          \<and> fst (ensureConfigured e (setAppUserId (Some (user_id u)) s)) = Inr ()
          \<and> import_result e = Inl err
        \<longrightarrow> isPremium (snd (fetchPremiumStatus e (Some u) s)) = False
          \<and> trace (snd (fetchPremiumStatus e (Some u) s)) =
              trace (snd (ensureConfigured e (setAppUserId (Some (user_id u)) s)))
              @ [ImportSdk, ConsoleError err,
                 ProfilesUpdate (user_id u) \<lparr>is_premium = False, premium_expires_at = None\<rparr>])
   \<and> (\<forall>err. isNative s
          \<and> fst (ensureConfigured e (setAppUserId (Some (user_id u)) s)) = Inr ()
          \<and> import_result e = Inr () \<and> getCustomerInfo_result e = Inl err
        \<longrightarrow> isPremium (snd (fetchPremiumStatus e (Some u) s)) = False
          \<and> trace (snd (fetchPremiumStatus e (Some u) s)) =
              trace (snd (ensureConfigured e (setAppUserId (Some (user_id u)) s)))
              @ [ImportSdk, GetCustomerInfo, ConsoleError err,
                 ProfilesUpdate (user_id u) \<lparr>is_premium = False, premium_expires_at = None\<rparr>])
   \<and> (\<forall>err. \<not> isNative s
          \<and> (select_result e = Inl err
              \<or> (\<exists>resp. select_result e = Inr resp \<and> sel_error resp = Some err))
        \<longrightarrow> snd (fetchPremiumStatus e (Some u) s) =
              s\<lparr>trace := trace s @ [ProfilesSelect (user_id u), ConsoleError err],
                isLoading := False\<rparr>
          \<and> isPremium (snd (fetchPremiumStatus e (Some u) s)) = isPremium s)"
proof (intro conjI allI impI)
  show "fst (fetchPremiumStatus e (Some u) s) = Inr ()"
    using fetchPremiumStatus_result by blast
  show "isLoading (snd (fetchPremiumStatus e (Some u) s)) = False"
    using fetchPremiumStatus_result by blast
next
  fix err
  let ?su = "setAppUserId (Some (user_id u)) s"
  assume a: "isNative s \<and> fst (ensureConfigured e ?su) = Inl err"
  then obtain s1 where ens: "ensureConfigured e ?su = (Inl err, s1)"
    by (cases "ensureConfigured e ?su") auto
  then have "check_try e ?su = (Inl err, s1)"
    by (simp add: check_try_def)
  with a have r: "snd (fetchPremiumStatus e (Some u) s) =
           s1\<lparr>trace := trace s1 @
                  [ConsoleError err,
                   ProfilesUpdate (user_id u) \<lparr>is_premium = False, premium_expires_at = None\<rparr>],
                isPremium := False, isLoading := False\<rparr>"
    by (simp add: fetch_native_failure)
  show "isPremium (snd (fetchPremiumStatus e (Some u) s)) = False"
    by (simp add: r)
  show "trace (snd (fetchPremiumStatus e (Some u) s)) =
      trace (snd (ensureConfigured e ?su))
      @ [ConsoleError err,
         ProfilesUpdate (user_id u) \<lparr>is_premium = False, premium_expires_at = None\<rparr>]"
    by (simp add: r ens)
next
  fix err
  let ?su = "setAppUserId (Some (user_id u)) s"
  assume a: "isNative s \<and> fst (ensureConfigured e ?su) = Inr () \<and> import_result e = Inl err"
  then obtain s1 where ens: "ensureConfigured e ?su = (Inr (), s1)"
    by (cases "ensureConfigured e ?su") auto
  with a have "check_try e ?su = (Inl err, record_call ImportSdk s1)"
    by (simp add: check_try_def sdk_def)
  with a have r: "snd (fetchPremiumStatus e (Some u) s) =
           (record_call ImportSdk s1)\<lparr>trace := trace (record_call ImportSdk s1) @
                  [ConsoleError err,
                   ProfilesUpdate (user_id u) \<lparr>is_premium = False, premium_expires_at = None\<rparr>],
                isPremium := False, isLoading := False\<rparr>"
    by (simp add: fetch_native_failure)
  show "isPremium (snd (fetchPremiumStatus e (Some u) s)) = False"
    by (simp add: r)
  show "trace (snd (fetchPremiumStatus e (Some u) s)) =
      trace (snd (ensureConfigured e ?su))
      @ [ImportSdk, ConsoleError err,
         ProfilesUpdate (user_id u) \<lparr>is_premium = False, premium_expires_at = None\<rparr>]"
    by (simp add: r ens record_call_def)
next
  fix err
  let ?su = "setAppUserId (Some (user_id u)) s"
  assume a: "isNative s \<and> fst (ensureConfigured e ?su) = Inr ()
      \<and> import_result e = Inr () \<and> getCustomerInfo_result e = Inl err"
  then obtain s1 where ens: "ensureConfigured e ?su = (Inr (), s1)"
    by (cases "ensureConfigured e ?su") auto
  let ?sq = "record_call GetCustomerInfo (record_call ImportSdk s1)"
  from a ens have "check_try e ?su = (Inl err, ?sq)"
    by (simp add: check_try_def sdk_def)
  with a have r: "snd (fetchPremiumStatus e (Some u) s) =
           ?sq\<lparr>trace := trace ?sq @
                  [ConsoleError err,
                   ProfilesUpdate (user_id u) \<lparr>is_premium = False, premium_expires_at = None\<rparr>],
                isPremium := False, isLoading := False\<rparr>"
    by (simp add: fetch_native_failure)
  show "isPremium (snd (fetchPremiumStatus e (Some u) s)) = False"
    by (simp add: r)
  show "trace (snd (fetchPremiumStatus e (Some u) s)) =
      trace (snd (ensureConfigured e ?su))
      @ [ImportSdk, GetCustomerInfo, ConsoleError err,
         ProfilesUpdate (user_id u) \<lparr>is_premium = False, premium_expires_at = None\<rparr>]"
    by (simp add: r ens record_call_def)
next
  fix err
  assume a: "\<not> isNative s
          \<and> (select_result e = Inl err
              \<or> (\<exists>resp. select_result e = Inr resp \<and> sel_error resp = Some err))"
  then have r: "snd (fetchPremiumStatus e (Some u) s) =
           s\<lparr>trace := trace s @ [ProfilesSelect (user_id u), ConsoleError err],
             isLoading := False\<rparr>"
    by (simp add: fetch_web_failure)
  then show "snd (fetchPremiumStatus e (Some u) s) =
           s\<lparr>trace := trace s @ [ProfilesSelect (user_id u), ConsoleError err],
             isLoading := False\<rparr>" .
  show "isPremium (snd (fetchPremiumStatus e (Some u) s)) = isPremium s"
    by (simp add: r)
qed

theorem fetchPremiumStatus_failure_policy_witness:
  "\<not> isNative (new_PremiumProvider web_env_read_fails)
   \<and> select_result web_env_read_fails = Inl (new_Error ''Failed to fetch'')
   \<and> fetchPremiumStatus web_env_read_fails (Some user1) (new_PremiumProvider web_env_read_fails) =
       (Inr (),
        \<lparr>isNative = False, currentPlatform = Web, configured = False, appUserId = None,
         trace = [ProfilesSelect ''u1'', ConsoleError (new_Error ''Failed to fetch'')],
         isPremium = False, isLoading = False\<rparr>)
   \<and> isNative premium_android_provider
   \<and> isPremium premium_android_provider
   \<and> getCustomerInfo_result android_env_query_fails = Inl (new_Error ''Network error'')
   \<and> fst (fetchPremiumStatus android_env_query_fails (Some user1) premium_android_provider) = Inr ()
   \<and> isPremium (snd (fetchPremiumStatus android_env_query_fails (Some user1)
                       premium_android_provider)) = False
   \<and> drop (length (trace premium_android_provider))
        (trace (snd (fetchPremiumStatus android_env_query_fails (Some user1)
                       premium_android_provider))) =
       [ImportSdk, SetLogLevel, Configure ''goog_key'' (Some ''u1''), ImportSdk, GetCustomerInfo,
        ConsoleError (new_Error ''Network error''),
        ProfilesUpdate ''u1'' \<lparr>is_premium = False, premium_expires_at = None\<rparr>]"
proof -
  let ?s = "new_PremiumProvider web_env_read_fails"
  have sw: "?s = \<lparr>isNative = False, currentPlatform = Web, configured = False, appUserId = None,
         trace = [], isPremium = False, isLoading = True\<rparr>"
    by (simp add: new_PremiumProvider_def web_env_read_fails_def web_env_def getCurrentPlatform_def)
  have n: "\<not> isNative ?s"
    by (simp add: sw)
  have r: "select_result web_env_read_fails = Inl (new_Error ''Failed to fetch'')"
    by (simp add: web_env_read_fails_def)
  then have f: "\<not> isNative ?s \<and> (select_result web_env_read_fails = Inl (new_Error ''Failed to fetch'')
      \<or> (\<exists>resp. select_result web_env_read_fails = Inr resp
            \<and> sel_error resp = Some (new_Error ''Failed to fetch'')))"
    using n by blast
  from fetchPremiumStatus_failure_policy [of web_env_read_fails user1 ?s] f
  have web: "fst (fetchPremiumStatus web_env_read_fails (Some user1) ?s) = Inr ()"
    "snd (fetchPremiumStatus web_env_read_fails (Some user1) ?s) =
       ?s\<lparr>trace := trace ?s @ [ProfilesSelect (user_id user1), ConsoleError (new_Error ''Failed to fetch'')],
          isLoading := False\<rparr>"
    by blast+
  have web': "fetchPremiumStatus web_env_read_fails (Some user1) ?s =
       (Inr (),
        \<lparr>isNative = False, currentPlatform = Web, configured = False, appUserId = None,
         trace = [ProfilesSelect ''u1'', ConsoleError (new_Error ''Failed to fetch'')],
         isPremium = False, isLoading = False\<rparr>)"
    using web by (cases "fetchPremiumStatus web_env_read_fails (Some user1) ?s")
      (simp add: sw user1_def)
  let ?t = "premium_android_provider"
  let ?tu = "setAppUserId (Some (user_id user1)) ?t"
  have tn: "isNative ?t" and tp: "isPremium ?t"
    by (simp_all add: premium_android_provider_eq)
  have q: "getCustomerInfo_result android_env_query_fails = Inl (new_Error ''Network error'')"
    and i: "import_result android_env_query_fails = Inr ()"
    by (simp_all add: android_env_query_fails_def android_env_def)
  have ens: "ensureConfigured android_env_query_fails ?tu =
      (Inr (), ?t\<lparr>trace := trace ?t @ [ImportSdk, SetLogLevel, Configure ''goog_key'' (Some ''u1'')]\<rparr>)"
    by (simp add: premium_android_provider_eq ensureConfigured_def setAppUserId_def
        android_env_query_fails_def android_env_def user1_def getApiKey_def sdk_def
        record_call_def truthy_def)
  then have pre: "isNative ?t \<and> fst (ensureConfigured android_env_query_fails ?tu) = Inr ()
      \<and> import_result android_env_query_fails = Inr ()
      \<and> getCustomerInfo_result android_env_query_fails = Inl (new_Error ''Network error'')"
    using tn q i by simp
  from fetchPremiumStatus_failure_policy [of android_env_query_fails user1 ?t] pre
  have nat: "fst (fetchPremiumStatus android_env_query_fails (Some user1) ?t) = Inr ()"
    "isPremium (snd (fetchPremiumStatus android_env_query_fails (Some user1) ?t)) = False"
    "trace (snd (fetchPremiumStatus android_env_query_fails (Some user1) ?t)) =
       trace (snd (ensureConfigured android_env_query_fails ?tu))
       @ [ImportSdk, GetCustomerInfo, ConsoleError (new_Error ''Network error''),
          ProfilesUpdate (user_id user1) \<lparr>is_premium = False, premium_expires_at = None\<rparr>]"
    by blast+
  have tr: "drop (length (trace ?t))
        (trace (snd (fetchPremiumStatus android_env_query_fails (Some user1) ?t))) =
       [ImportSdk, SetLogLevel, Configure ''goog_key'' (Some ''u1''), ImportSdk, GetCustomerInfo,
        ConsoleError (new_Error ''Network error''),
        ProfilesUpdate ''u1'' \<lparr>is_premium = False, premium_expires_at = None\<rparr>]"
    unfolding nat(3) ens by (simp add: user1_def)
  from n r web' tn tp q nat(1,2) tr show ?thesis
    by simp
qed

text \<open>
  C1, as stated, fails: a provider that has resolved \<open>premium\<close> and is refreshed while the
  read of the row is rejected still says \<open>premium\<close>.
\<close>

theorem stale_premium_after_failed_read:
  "isPremium (new_PremiumProvider web_env) = False
   \<and> isPremium premium_web_provider
   \<and> select_result web_env_read_fails = Inl (new_Error ''Failed to fetch'')
   \<and> fst (fetchPremiumStatus web_env_read_fails (Some user1) premium_web_provider) = Inr ()
   \<and> isPremium (snd (fetchPremiumStatus web_env_read_fails (Some user1) premium_web_provider))"
  by (simp add: premium_web_provider_eq fetchPremiumStatus_def fetch_try_def isAvailable_def
      new_PremiumProvider_def web_env_read_fails_def web_env_def android_env_def user1_def
      record_call_def)

text \<open>
  C2, as the code has it. Without native purchases, when the read succeeds: a row gives
  the flag \<open>is_premium\<close> and (no expiry stored, or the stored expiry strictly after now);
  so a past expiry gives not premium even with the stored flag true, and a true flag with
  no expiry gives premium. When there is no row, the call resolves and the flag keeps the
  value it had before the call.
\<close>

theorem web_fallback_resolution:
  assumes web: "\<not> isNative s"
    and sel: "select_result e = Inr resp"
    and noerr: "sel_error resp = None"
  shows "fst (fetchPremiumStatus e (Some u) s) = Inr ()
    \<and> (\<forall>d. sel_data resp = Some d \<longrightarrow>
          isPremium (snd (fetchPremiumStatus e (Some u) s)) =
            (is_premium d \<and>
             (premium_expires_at d = None \<or> premium_expires_at d = Some []
              \<or> (\<exists>x t. premium_expires_at d = Some x \<and> date_value e x = Some t
                        \<and> date_now e < t))))
    \<and> (\<forall>d x t. sel_data resp = Some d \<and> premium_expires_at d = Some x \<and> x \<noteq> []
                \<and> date_value e x = Some t \<and> t \<le> date_now e
          \<longrightarrow> isPremium (snd (fetchPremiumStatus e (Some u) s)) = False)
    \<and> (\<forall>d. sel_data resp = Some d \<and> is_premium d \<and> premium_expires_at d = None
          \<longrightarrow> isPremium (snd (fetchPremiumStatus e (Some u) s)) = True)
    \<and> (sel_data resp = None
          \<longrightarrow> isPremium (snd (fetchPremiumStatus e (Some u) s)) = isPremium s)"
proof -
  have row: "isPremium (snd (fetchPremiumStatus e (Some u) s)) = isActive e d"
    if "sel_data resp = Some d" for d
    using that web sel noerr fetchPremiumStatus_result [of e u s]
    by (simp add: fetch_try_web)
  have none: "isPremium (snd (fetchPremiumStatus e (Some u) s)) = isPremium s"
    if "sel_data resp = None"
    using that web sel noerr fetchPremiumStatus_result [of e u s]
    by (simp add: fetch_try_web record_call_def)
  show ?thesis
  proof (intro conjI allI impI)
    show "fst (fetchPremiumStatus e (Some u) s) = Inr ()"
      using fetchPremiumStatus_result by blast
  next
    fix d assume "sel_data resp = Some d"
    then show "isPremium (snd (fetchPremiumStatus e (Some u) s)) =
            (is_premium d \<and>
             (premium_expires_at d = None \<or> premium_expires_at d = Some []
              \<or> (\<exists>x t. premium_expires_at d = Some x \<and> date_value e x = Some t
                        \<and> date_now e < t)))"
      using row isActive_spec by simp
  next
    fix d x t
    assume a: "sel_data resp = Some d \<and> premium_expires_at d = Some x \<and> x \<noteq> []
                \<and> date_value e x = Some t \<and> t \<le> date_now e"
    then have "\<not> isActive e d"
      by (simp add: isActive_def truthy_def)
    with a row show "isPremium (snd (fetchPremiumStatus e (Some u) s)) = False"
      by simp
  next
    fix d
    assume a: "sel_data resp = Some d \<and> is_premium d \<and> premium_expires_at d = None"
    then have "isActive e d"
      by (simp add: isActive_def truthy_def)
    with a row show "isPremium (snd (fetchPremiumStatus e (Some u) s)) = True"
      by simp
  next
    assume "sel_data resp = None"
    then show "isPremium (snd (fetchPremiumStatus e (Some u) s)) = isPremium s"
      by (rule none)
  qed
qed

theorem web_fallback_resolution_witness:
  "\<not> isNative (new_PremiumProvider web_env_expired)
   \<and> select_result web_env_expired =
       Inr \<lparr>sel_data = Some \<lparr>is_premium = True, premium_expires_at = Some ''2020-01-01''\<rparr>,
            sel_error = None\<rparr>
   \<and> date_value web_env_expired ''2020-01-01'' = Some 1577836800000
   \<and> date_now web_env_expired = 1793664000000
   \<and> fst (fetchPremiumStatus web_env_expired (Some user1) (new_PremiumProvider web_env_expired)) = Inr ()
   \<and> isPremium (snd (fetchPremiumStatus web_env_expired (Some user1)
                       (new_PremiumProvider web_env_expired))) = False"
proof -
  let ?s = "new_PremiumProvider web_env_expired"
  let ?d = "\<lparr>is_premium = True, premium_expires_at = Some ''2020-01-01''\<rparr>"
  let ?resp = "\<lparr>sel_data = Some ?d, sel_error = None\<rparr>"
  have web: "\<not> isNative ?s"
    by (simp add: new_PremiumProvider_def web_env_expired_def web_env_def)
  have sel: "select_result web_env_expired = Inr ?resp"
    by (simp add: web_env_expired_def)
  have noerr: "sel_error ?resp = None"
    by simp
  have dv: "date_value web_env_expired ''2020-01-01'' = Some 1577836800000"
    and now: "date_now web_env_expired = 1793664000000"
    by (simp_all add: web_env_expired_def web_env_def android_env_def)
  have past: "sel_data ?resp = Some ?d \<and> premium_expires_at ?d = Some ''2020-01-01''
      \<and> ''2020-01-01'' \<noteq> [] \<and> date_value web_env_expired ''2020-01-01'' = Some 1577836800000
      \<and> (1577836800000::int) \<le> date_now web_env_expired"
    using dv now by simp
  from web_fallback_resolution [OF web sel noerr, of user1] past
  have "fst (fetchPremiumStatus web_env_expired (Some user1) ?s) = Inr ()"
    and "isPremium (snd (fetchPremiumStatus web_env_expired (Some user1) ?s)) = False"
    by blast+
  with web sel dv now show ?thesis
    by simp
qed

text \<open>
  C2, as stated, fails: a provider that has resolved \<open>premium\<close> and is refreshed after the
  row has gone still says \<open>premium\<close>.
\<close>

theorem stale_premium_after_row_removed:
  "isPremium (new_PremiumProvider web_env) = False
   \<and> isPremium premium_web_provider
   \<and> isNative premium_web_provider = False
   \<and> select_result web_env_no_row = Inr \<lparr>sel_data = None, sel_error = None\<rparr>
   \<and> fst (fetchPremiumStatus web_env_no_row (Some user1) premium_web_provider) = Inr ()
   \<and> isPremium (snd (fetchPremiumStatus web_env_no_row (Some user1) premium_web_provider))"
  by (simp add: premium_web_provider_eq fetchPremiumStatus_def fetch_try_def isAvailable_def
      new_PremiumProvider_def web_env_no_row_def web_env_def android_env_def user1_def
      record_call_def)

text \<open>
  C3. On a native runtime that configures, when the customer info has an active
  \<open>premium\<close> entitlement whose \<open>expirationDate\<close> (or, that being absent, \<open>expiresDate\<close>) is
  \<open>2099-01-01\<close>, \<open>checkPremiumStatus\<close> returns premium with that expiry, and
  \<open>fetchPremiumStatus\<close> sets the flag and then sends one update of the user's row with the
  flag and the expiry (as \<open>toISOString\<close> renders it); it resolves in the same state
  whether the update succeeds or is rejected.
\<close>

theorem native_premium_entitlement_resolved:
  assumes native: "isNative s"
    and key: "getApiKey e s = Some k" and key_ok: "k \<noteq> []"
    and imp: "import_result e = Inr ()"
    and conf: "configure_result e = Inr ()"
    and info: "getCustomerInfo_result e = Inr customerInfo"
    and prem: "premium_of customerInfo = Some en"
    and exp: "expirationDate en = Some ''2099-01-01''
      \<or> (\<not> truthy (expirationDate en) \<and> expiresDate en = Some ''2099-01-01'')"
    and iso: "date_toISOString e ''2099-01-01'' = Inr isoString"
  shows "fst (checkPremiumStatus e (setAppUserId (Some (user_id u)) s)) =
           Inr \<lparr>status_isPremium = True, status_expiresAt = Some ''2099-01-01''\<rparr>
    \<and> fetchPremiumStatus e (Some u) s =
        (Inr (),
         s\<lparr>configured := True,
           appUserId := (if user_id u = [] then None else Some (user_id u)),
           trace := trace s @
             [ImportSdk, SetLogLevel,
              Configure k (if user_id u = [] then None else Some (user_id u)),
              ImportSdk, GetCustomerInfo,
              ProfilesUpdate (user_id u)
                \<lparr>is_premium = True, premium_expires_at = Some isoString\<rparr>],
           isPremium := True, isLoading := False\<rparr>)"
proof -
  let ?s0 = "setAppUserId (Some (user_id u)) s"
  let ?uid = "if user_id u = [] then None else Some (user_id u)"
  have s0: "isNative ?s0" "\<not> configured ?s0" "getApiKey e ?s0 = Some k" "appUserId ?s0 = ?uid"
    using native key by (simp_all add: getApiKey_setAppUserId) (simp_all add: setAppUserId_def truthy_def)
  have ens: "ensureConfigured e ?s0 =
      (Inr (), ?s0\<lparr>trace := trace ?s0 @ [ImportSdk, SetLogLevel, Configure k ?uid],
                   configured := True\<rparr>)"
    using s0 key_ok imp conf
    by (simp add: ensureConfigured_def sdk_def record_call_def split: sum.splits)
  have date: "js_or (expirationDate en) (expiresDate en) = Some ''2099-01-01''"
    using exp by (rule expiry_field)
  have chk: "check_try e ?s0 =
      (Inr \<lparr>status_isPremium = True, status_expiresAt = Some ''2099-01-01''\<rparr>,
       ?s0\<lparr>trace := trace ?s0 @ [ImportSdk, SetLogLevel, Configure k ?uid, ImportSdk, GetCustomerInfo],
          configured := True\<rparr>)"
    using imp info prem date
    by (simp add: check_try_def ens sdk_def record_call_def truthy_def)
  have cps: "checkPremiumStatus e ?s0 =
      (Inr \<lparr>status_isPremium = True, status_expiresAt = Some ''2099-01-01''\<rparr>,
       ?s0\<lparr>trace := trace ?s0 @ [ImportSdk, SetLogLevel, Configure k ?uid, ImportSdk, GetCustomerInfo],
          configured := True\<rparr>)"
    using s0(1) by (simp add: checkPremiumStatus_def chk)
  let ?s1 = "?s0\<lparr>trace := trace ?s0 @ [ImportSdk, SetLogLevel, Configure k ?uid, ImportSdk, GetCustomerInfo],
          configured := True\<rparr>"
  let ?row = "\<lparr>is_premium = True, premium_expires_at = Some isoString\<rparr>"
  have ft: "fetch_try e u s =
      (Inr (), ?s1\<lparr>isPremium := True, trace := trace ?s1 @ [ProfilesUpdate (user_id u) ?row]\<rparr>)"
    using native iso
    by (cases "update_result e")
       (simp_all add: fetch_try_def isAvailable_def cps sync_try_def record_call_def)
  have "fetchPremiumStatus e (Some u) s =
      (Inr (), ?s1\<lparr>isPremium := True, trace := trace ?s1 @ [ProfilesUpdate (user_id u) ?row],
                  isLoading := False\<rparr>)"
    by (simp add: fetchPremiumStatus_def ft)
  then have "fetchPremiumStatus e (Some u) s =
        (Inr (),
         s\<lparr>configured := True, appUserId := ?uid,
           trace := trace s @
             [ImportSdk, SetLogLevel, Configure k ?uid, ImportSdk, GetCustomerInfo,
              ProfilesUpdate (user_id u) ?row],
           isPremium := True, isLoading := False\<rparr>)"
    by (simp add: setAppUserId_def truthy_def)
  with cps show ?thesis
    by simp
qed

theorem native_premium_entitlement_resolved_witness:
  "isNative (new_PremiumProvider android_env)
   \<and> getCustomerInfo_result android_env = Inr (Some [(''premium'', Some premium_entitlement)])
   \<and> expirationDate premium_entitlement = Some ''2099-01-01''
   \<and> update_result android_env = Inl (new_Error ''Failed to fetch'')
   \<and> fst (checkPremiumStatus android_env
            (setAppUserId (Some (user_id user1)) (new_PremiumProvider android_env))) =
       Inr \<lparr>status_isPremium = True, status_expiresAt = Some ''2099-01-01''\<rparr>
   \<and> fetchPremiumStatus android_env (Some user1) (new_PremiumProvider android_env) =
       (Inr (),
        \<lparr>isNative = True, currentPlatform = Google, configured = True, appUserId = Some ''u1'',
         trace = [ImportSdk, SetLogLevel, Configure ''goog_key'' (Some ''u1''), ImportSdk,
                  GetCustomerInfo,
                  ProfilesUpdate ''u1''
                    \<lparr>is_premium = True, premium_expires_at = Some ''2099-01-01T00:00:00.000Z''\<rparr>],
         isPremium = True, isLoading = False\<rparr>)"
proof -
  let ?s = "new_PremiumProvider android_env"
  have s: "?s = \<lparr>isNative = True, currentPlatform = Google, configured = False, appUserId = None,
                  trace = [], isPremium = False, isLoading = True\<rparr>"
    by (simp add: new_PremiumProvider_def android_env_def getCurrentPlatform_def)
  have native: "isNative ?s"
    by (simp add: s)
  have "getApiKey android_env ?s = VITE_REVENUECAT_PUBLIC_GOOGLE_KEY android_env"
    by (simp add: s getApiKey_def)
  then have key: "getApiKey android_env ?s = Some ''goog_key''"
    by (simp add: android_env_def)
  have key_ok: "''goog_key'' \<noteq> []"
    by simp
  have imp: "import_result android_env = Inr ()"
    and conf: "configure_result android_env = Inr ()"
    and info: "getCustomerInfo_result android_env = Inr (Some [(''premium'', Some premium_entitlement)])"
    and upd: "update_result android_env = Inl (new_Error ''Failed to fetch'')"
    and iso: "date_toISOString android_env ''2099-01-01'' = Inr ''2099-01-01T00:00:00.000Z''"
    by (simp_all add: android_env_def)
  have prem: "premium_of (Some [(''premium'', Some premium_entitlement)]) = Some premium_entitlement"
    by (simp add: premium_of_def)
  have date: "expirationDate premium_entitlement = Some ''2099-01-01''"
    by (simp add: premium_entitlement_def)
  then have exp: "expirationDate premium_entitlement = Some ''2099-01-01''
      \<or> (\<not> truthy (expirationDate premium_entitlement)
          \<and> expiresDate premium_entitlement = Some ''2099-01-01'')"
    by simp
  have uid: "user_id user1 = ''u1''"
    by (simp add: user1_def)
  from native_premium_entitlement_resolved [OF native key key_ok imp conf info prem exp iso, of user1]
    native info date upd
  show ?thesis
    by (simp add: uid s)
qed

section \<open>Purchases\<close>

text \<open>
  C4. On an Android device built without its API key, \<open>purchase\<close> rejects with the
  missing-key error instead of returning an outcome: \<open>ensureConfigured\<close> is awaited
  before the \<open>try\<close> block. \<open>restorePurchases\<close>, which awaits it inside its \<open>try\<close> block,
  returns the same error as a result.
\<close>

theorem purchase_rejects_without_api_key:
  "isNative (new_IAPService android_env_no_key)
   \<and> purchase android_env_no_key ''cozy_premium_monthly'' (new_IAPService android_env_no_key) =
       (Inl (missing_key_error Google), new_IAPService android_env_no_key)
   \<and> fst (restorePurchases android_env_no_key (new_IAPService android_env_no_key)) =
       Inr \<lparr>restored = [],
            restore_error = Some ''[IAP] Missing RevenueCat API key. Set VITE_REVENUECAT_PUBLIC_GOOGLE_KEY in .env''\<rparr>"
  by (simp add: purchase_def restorePurchases_def restore_try_def ensureConfigured_def
      new_IAPService_def android_env_no_key_def android_env_def getApiKey_def
      getCurrentPlatform_def missing_key_error_def new_Error_def js_or_default_def)

text \<open>
  C5, as the code has it. Every call of \<open>setAppUserId\<close> invalidates the configuration,
  whatever identity it is given. No operation of the service (\<open>getProducts\<close>, \<open>purchase\<close>,
  \<open>restorePurchases\<close>, \<open>checkPremiumStatus\<close>) invalidates it or changes the associated
  identity: a configured service stays configured, with no further \<open>configure\<close> call,
  through any sequence of them. Each operation calls \<open>configure\<close> at most once. On a native
  service that is not configured and has a key, an operation calls \<open>configure\<close> exactly once
  with the associated identity and leaves the service configured when the import of the
  SDK and that call resolve; it calls \<open>configure\<close> not at all and leaves the service
  unconfigured when the import is rejected.
\<close>

theorem configuration_lifecycle:
  "configured (setAppUserId uid s) = False
   \<and> appUserId (setAppUserId uid s) = (if truthy uid then uid else None)
   \<and> (configured s \<longrightarrow> foldl (\<lambda>st e'. snd (ensureConfigured e' st)) s es = s)
   \<and> (configured s \<longrightarrow>
        configured (foldl (\<lambda>st x. perform (fst x) (snd x) st) s ops)
        \<and> configure_calls (foldl (\<lambda>st x. perform (fst x) (snd x) st) s ops) = configure_calls s)
   \<and> appUserId (perform e op s) = appUserId s
   \<and> length (configure_calls (perform e op s)) \<le> Suc (length (configure_calls s))
   \<and> (isNative s \<and> \<not> configured s \<and> getApiKey e s = Some k \<and> k \<noteq> []
        \<and> import_result e = Inr () \<and> configure_result e = Inr ()
      \<longrightarrow> ensureConfigured e s =
            (Inr (), s\<lparr>trace := trace s @ [ImportSdk, SetLogLevel, Configure k (appUserId s)],
                       configured := True\<rparr>)
          \<and> configured (perform e op s)
          \<and> configure_calls (perform e op s) = configure_calls s @ [Configure k (appUserId s)])
   \<and> (isNative s \<and> \<not> configured s \<and> getApiKey e s = Some k \<and> k \<noteq> []
        \<and> (\<exists>err. import_result e = Inl err)
      \<longrightarrow> \<not> configured (perform e op s)
          \<and> configure_calls (perform e op s) = configure_calls s)"
proof (intro conjI impI)
  show "configured (setAppUserId uid s) = False"
    by (simp add: setAppUserId_def)
  show "appUserId (setAppUserId uid s) = (if truthy uid then uid else None)"
    by (simp add: setAppUserId_def)
  show "foldl (\<lambda>st e'. snd (ensureConfigured e' st)) s es = s" if "configured s"
    using that by (rule configured_noop_all)
  show "configured (foldl (\<lambda>st x. perform (fst x) (snd x) st) s ops)" if "configured s"
    using perform_all_configured [OF that] by blast
  show "configure_calls (foldl (\<lambda>st x. perform (fst x) (snd x) st) s ops) = configure_calls s"
    if "configured s"
    using perform_all_configured [OF that] by blast
  show "appUserId (perform e op s) = appUserId s"
    using perform_configuration [of e op s] ensureConfigured_frame [of e s] by simp
  show "length (configure_calls (perform e op s)) \<le> Suc (length (configure_calls s))"
    using perform_configuration [of e op s] ensureConfigured_at_most_once [of e s] by simp
next
  assume a: "isNative s \<and> \<not> configured s \<and> getApiKey e s = Some k \<and> k \<noteq> []
        \<and> import_result e = Inr () \<and> configure_result e = Inr ()"
  then have ens: "ensureConfigured e s =
            (Inr (), s\<lparr>trace := trace s @ [ImportSdk, SetLogLevel, Configure k (appUserId s)],
                       configured := True\<rparr>)"
    by (simp add: ensureConfigured_configures)
  then show "ensureConfigured e s =
            (Inr (), s\<lparr>trace := trace s @ [ImportSdk, SetLogLevel, Configure k (appUserId s)],
                       configured := True\<rparr>)" .
  from ens show "configured (perform e op s)"
    using perform_configuration [of e op s] by simp
  from ens show "configure_calls (perform e op s) = configure_calls s @ [Configure k (appUserId s)]"
    using perform_configuration [of e op s] by (simp add: configure_calls_def)
next
  assume a: "isNative s \<and> \<not> configured s \<and> getApiKey e s = Some k \<and> k \<noteq> []
        \<and> (\<exists>err. import_result e = Inl err)"
  then obtain err where "import_result e = Inl err"
    by blast
  with a have ens: "ensureConfigured e s = (Inl err, s\<lparr>trace := trace s @ [ImportSdk]\<rparr>)"
    by (simp add: ensureConfigured_import_rejected)
  from ens a show "\<not> configured (perform e op s)"
    using perform_configuration [of e op s] by simp
  from ens show "configure_calls (perform e op s) = configure_calls s"
    using perform_configuration [of e op s] by (simp add: configure_calls_def)
qed

theorem configuration_lifecycle_witness:
  "configured configured_for_u1
   \<and> foldl (\<lambda>st e'. snd (ensureConfigured e' st)) configured_for_u1
        [android_env, android_env_no_key] = configured_for_u1
   \<and> configure_calls
        (foldl (\<lambda>st x. perform (fst x) (snd x) st) configured_for_u1
           [(android_env, OpPurchase ''cozy_premium_monthly''),
            (android_env, OpRestorePurchases),
            (android_env_no_key, OpCheckPremiumStatus)]) =
       [Configure ''goog_key'' (Some ''u1'')]
   \<and> configured (setAppUserId (Some ''u2'') configured_for_u1) = False
   \<and> ensureConfigured android_env (setAppUserId (Some ''u2'') configured_for_u1) =
       (Inr (), \<lparr>isNative = True, currentPlatform = Google, configured = True,
                 appUserId = Some ''u2'',
                 trace = [ImportSdk, SetLogLevel, Configure ''goog_key'' (Some ''u1''),
                          ImportSdk, SetLogLevel, Configure ''goog_key'' (Some ''u2'')]\<rparr>)
   \<and> configure_calls (perform android_env (OpPurchase ''cozy_premium_monthly'')
        (setAppUserId (Some ''u2'') configured_for_u1)) =
       [Configure ''goog_key'' (Some ''u1''), Configure ''goog_key'' (Some ''u2'')]
   \<and> import_result android_env_import_fails =
       Inl (new_Error ''Failed to fetch dynamically imported module'')
   \<and> configure_calls (perform android_env_import_fails OpRestorePurchases
        (setAppUserId (Some ''u2'') configured_for_u1)) =
       [Configure ''goog_key'' (Some ''u1'')]"
proof -
  let ?s = "setAppUserId (Some ''u2'') configured_for_u1"
  let ?ops = "[(android_env, OpPurchase ''cozy_premium_monthly''),
               (android_env, OpRestorePurchases),
               (android_env_no_key, OpCheckPremiumStatus)]"
  have c: "configured configured_for_u1"
    by (simp add: configured_for_u1_eq)
  have calls1: "configure_calls configured_for_u1 = [Configure ''goog_key'' (Some ''u1'')]"
    by (simp add: configured_for_u1_eq configure_calls_def)
  have s: "?s = \<lparr>isNative = True, currentPlatform = Google, configured = False,
                  appUserId = Some ''u2'',
                  trace = [ImportSdk, SetLogLevel, Configure ''goog_key'' (Some ''u1'')]\<rparr>"
    by (simp add: configured_for_u1_eq setAppUserId_def truthy_def)
  have calls2: "configure_calls ?s = [Configure ''goog_key'' (Some ''u1'')]"
    by (simp add: s configure_calls_def)
  have key: "getApiKey android_env ?s = Some ''goog_key''"
    "getApiKey android_env_import_fails ?s = Some ''goog_key''"
    by (simp_all add: s getApiKey_def android_env_import_fails_def android_env_def)
  have pre: "isNative ?s \<and> \<not> configured ?s \<and> getApiKey android_env ?s = Some ''goog_key''
        \<and> ''goog_key'' \<noteq> [] \<and> import_result android_env = Inr ()
        \<and> configure_result android_env = Inr ()"
    using key by (simp add: s android_env_def)
  have imp: "import_result android_env_import_fails =
       Inl (new_Error ''Failed to fetch dynamically imported module'')"
    by (simp add: android_env_import_fails_def)
  then have pre2: "isNative ?s \<and> \<not> configured ?s
        \<and> getApiKey android_env_import_fails ?s = Some ''goog_key'' \<and> ''goog_key'' \<noteq> []
        \<and> (\<exists>err. import_result android_env_import_fails = Inl err)"
    using key by (simp add: s)
  from configuration_lifecycle
    [of "Some ''u2''" configured_for_u1 "[android_env, android_env_no_key]" ?ops]
  have a: "configured configured_for_u1 \<longrightarrow>
        foldl (\<lambda>st e'. snd (ensureConfigured e' st)) configured_for_u1
          [android_env, android_env_no_key] = configured_for_u1"
    and b: "configured ?s = False"
    and f: "configured configured_for_u1 \<longrightarrow>
        configured (foldl (\<lambda>st x. perform (fst x) (snd x) st) configured_for_u1 ?ops)
        \<and> configure_calls (foldl (\<lambda>st x. perform (fst x) (snd x) st) configured_for_u1 ?ops) =
            configure_calls configured_for_u1"
    by blast+
  from configuration_lifecycle
    [of None ?s "[]" "[]" android_env "OpPurchase ''cozy_premium_monthly''" "''goog_key''"] pre
  have d: "ensureConfigured android_env ?s =
            (Inr (), ?s\<lparr>trace := trace ?s @ [ImportSdk, SetLogLevel, Configure ''goog_key'' (appUserId ?s)],
                       configured := True\<rparr>)"
    and d2: "configure_calls (perform android_env (OpPurchase ''cozy_premium_monthly'') ?s) =
        configure_calls ?s @ [Configure ''goog_key'' (appUserId ?s)]"
    by blast+
  from configuration_lifecycle
    [of None ?s "[]" "[]" android_env_import_fails OpRestorePurchases "''goog_key''"] pre2
  have g: "configure_calls (perform android_env_import_fails OpRestorePurchases ?s) =
        configure_calls ?s"
    by blast
  have d': "ensureConfigured android_env ?s =
       (Inr (), \<lparr>isNative = True, currentPlatform = Google, configured = True,
                 appUserId = Some ''u2'',
                 trace = [ImportSdk, SetLogLevel, Configure ''goog_key'' (Some ''u1''),
                          ImportSdk, SetLogLevel, Configure ''goog_key'' (Some ''u2'')]\<rparr>)"
    using d by (simp add: s)
  have d2': "configure_calls (perform android_env (OpPurchase ''cozy_premium_monthly'') ?s) =
       [Configure ''goog_key'' (Some ''u1''), Configure ''goog_key'' (Some ''u2'')]"
    using d2 calls2 by (simp add: s)
  from a b c f calls1 d' d2' imp g calls2 show ?thesis
    by simp
qed

text \<open>
  C5, as stated, fails: setting the identity that is already associated invalidates the
  configuration, and the next operation configures the SDK a second time for it.
\<close>

theorem reconfigured_without_identity_change:
  "appUserId configured_for_u1 = Some ''u1''
   \<and> configured configured_for_u1
   \<and> appUserId (setAppUserId (Some ''u1'') configured_for_u1) = Some ''u1''
   \<and> configured (setAppUserId (Some ''u1'') configured_for_u1) = False
   \<and> filter is_Configure
        (trace (snd (ensureConfigured android_env (setAppUserId (Some ''u1'') configured_for_u1)))) =
       [Configure ''goog_key'' (Some ''u1''), Configure ''goog_key'' (Some ''u1'')]"
  by (simp add: configured_for_u1_eq ensureConfigured_def setAppUserId_def
      android_env_def getApiKey_def sdk_def record_call_def truthy_def)

text \<open>
  C6. When the offerings query or the purchase of the package found throws \<open>err\<close>, and
  the error's code (\<open>code || errorCode\<close>) is \<open>USER_CANCELLED\<close> or its message has a run of
  characters that reads \<open>cancel\<close> once lowered, \<open>purchase\<close> returns the failure outcome
  whose error is the literal \<open>Purchase cancelled\<close>, without the raw error. Every other error
  gives the failure outcome with the raw error and its message (\<open>Purchase failed\<close> when
  the error has no message): a non-empty message is carried as it is.
\<close>

theorem purchase_error_normalised:
  assumes native: "isNative s"
    and conf: "fst (ensureConfigured e s) = Inr ()"
    and imp: "import_result e = Inr ()"
    and thrown: "getOfferings_result e = Inl err
      \<or> (\<exists>offerings pkg. getOfferings_result e = Inr offerings
            \<and> find (\<lambda>p. package_pid p = Some pid) (availablePackages offerings) = Some pkg
            \<and> purchasePackage_result e pkg = Inl err)"
  shows "((js_or (code err) (errorCode err) = Some ''USER_CANCELLED''
            \<or> (\<exists>m u. message err = Some m \<and> sublist u m \<and> toLowerCase u = ''cancel''))
          \<longrightarrow> fst (purchase e pid s) =
                Inr \<lparr>success = False, productId = None, transactionId = None,
                     platform = currentPlatform s, raw = None,
                     error = Some ''Purchase cancelled''\<rparr>)
       \<and> (\<not> (js_or (code err) (errorCode err) = Some ''USER_CANCELLED''
               \<or> (\<exists>m u. message err = Some m \<and> sublist u m \<and> toLowerCase u = ''cancel''))
          \<longrightarrow> fst (purchase e pid s) =
                Inr \<lparr>success = False, productId = None, transactionId = None,
                     platform = currentPlatform s, raw = Some (RawError err),
                     error = Some (js_or_default (message err) ''Purchase failed'')\<rparr>
              \<and> (\<forall>m. message err = Some m \<and> m \<noteq> []
                     \<longrightarrow> error (projr (fst (purchase e pid s))) = Some m))"
proof -
  obtain s1 where s1: "ensureConfigured e s = (Inr (), s1)"
    using conf by (cases "ensureConfigured e s") auto
  have pf1: "currentPlatform s1 = currentPlatform s"
    using ensureConfigured_frame [of e s] s1 by simp
  define s2 where "s2 = record_call ImportSdk s1"
  have "fst (purchase_try e pid s2) = Inl err"
    using thrown
    by (auto simp add: purchase_try_def Let_def split: option.splits sum.splits)
  then obtain s3 where s3: "purchase_try e pid s2 = (Inl err, s3)"
    by (cases "purchase_try e pid s2") auto
  have pf3: "currentPlatform s3 = currentPlatform s"
    using purchase_try_platform [of e pid s2] s3 pf1 by (simp add: s2_def record_call_def)
  have res: "fst (purchase e pid s) = Inr (purchase_catch (currentPlatform s) err)"
    using native s1 imp s3 pf3 by (simp add: purchase_def sdk_def s2_def)
  have cond: "(js_or (code err) (errorCode err) = Some ''USER_CANCELLED''
        \<or> js_includes (toLowerCase (js_or_default (message err) ''Purchase failed'')) ''cancel'')
      \<longleftrightarrow> (js_or (code err) (errorCode err) = Some ''USER_CANCELLED''
        \<or> (\<exists>m u. message err = Some m \<and> sublist u m \<and> toLowerCase u = ''cancel''))"
    by (simp only: message_cancel)
  have orig: "\<And>m. message err = Some m \<and> m \<noteq> [] \<Longrightarrow>
      js_or_default (message err) ''Purchase failed'' = m"
    by (auto simp add: js_or_default_def)
  show ?thesis
  proof (cases "js_or (code err) (errorCode err) = Some ''USER_CANCELLED''
        \<or> (\<exists>m u. message err = Some m \<and> sublist u m \<and> toLowerCase u = ''cancel'')")
    case True
    with cond have "purchase_catch (currentPlatform s) err =
        \<lparr>success = False, productId = None, transactionId = None,
         platform = currentPlatform s, raw = None, error = Some ''Purchase cancelled''\<rparr>"
      by (simp add: purchase_catch_def Let_def)
    with True res show ?thesis
      by simp
  next
    case False
    with cond have "purchase_catch (currentPlatform s) err =
        \<lparr>success = False, productId = None, transactionId = None,
         platform = currentPlatform s, raw = Some (RawError err),
         error = Some (js_or_default (message err) ''Purchase failed'')\<rparr>"
      by (simp add: purchase_catch_def Let_def)
    with False res orig show ?thesis
      by simp
  qed
qed

theorem purchase_error_normalised_witness:
  "isNative (new_IAPService android_env)
   \<and> purchasePackage_result android_env monthly_package = Inl cancelled_error
   \<and> sublist ''Cancel'' ''User Cancelled the purchase''
   \<and> fst (purchase android_env ''cozy_premium_monthly'' (new_IAPService android_env)) =
       Inr \<lparr>success = False, productId = None, transactionId = None, platform = Google,
            raw = None, error = Some ''Purchase cancelled''\<rparr>"
proof -
  have native: "isNative (new_IAPService android_env)"
    by (simp add: new_IAPService_def android_env_def)
  have imp: "import_result android_env = Inr ()"
    by (simp add: android_env_def)
  have pkg: "purchasePackage_result android_env monthly_package = Inl cancelled_error"
    by (simp add: android_env_def)
  have thrown: "getOfferings_result android_env = Inl cancelled_error
      \<or> (\<exists>offerings pkg. getOfferings_result android_env = Inr offerings
            \<and> find (\<lambda>p. package_pid p = Some ''cozy_premium_monthly'')
                  (availablePackages offerings) = Some pkg
            \<and> purchasePackage_result android_env pkg = Inl cancelled_error)"
    by (simp add: android_env_def availablePackages_def package_pid_def monthly_package_def
        js_or_def truthy_def)
  have sub: "sublist ''Cancel'' ''User Cancelled the purchase''"
    by code_simp
  have low: "toLowerCase ''Cancel'' = ''cancel''"
    by (simp add: toLowerCase_def lower_char_def)
  have cancel: "js_or (code cancelled_error) (errorCode cancelled_error) = Some ''USER_CANCELLED''
      \<or> (\<exists>m u. message cancelled_error = Some m \<and> sublist u m \<and> toLowerCase u = ''cancel'')"
    using sub low by (auto simp add: cancelled_error_def)
  have pf: "currentPlatform (new_IAPService android_env) = Google"
    by (simp add: new_IAPService_def android_env_def getCurrentPlatform_def)
  from purchase_error_normalised [OF native android_fresh_configures imp thrown]
  have "(js_or (code cancelled_error) (errorCode cancelled_error) = Some ''USER_CANCELLED''
          \<or> (\<exists>m u. message cancelled_error = Some m \<and> sublist u m \<and> toLowerCase u = ''cancel''))
        \<longrightarrow> fst (purchase android_env ''cozy_premium_monthly'' (new_IAPService android_env)) =
              Inr \<lparr>success = False, productId = None, transactionId = None,
                   platform = currentPlatform (new_IAPService android_env), raw = None,
                   error = Some ''Purchase cancelled''\<rparr>"
    by (rule conjunct1)
  from this cancel
  have "fst (purchase android_env ''cozy_premium_monthly'' (new_IAPService android_env)) =
          Inr \<lparr>success = False, productId = None, transactionId = None,
               platform = currentPlatform (new_IAPService android_env), raw = None,
               error = Some ''Purchase cancelled''\<rparr>"
    by (rule mp)
  with pf native pkg sub show ?thesis
    by simp
qed

text \<open>
  C7. On a non-native runtime \<open>purchase\<close>, \<open>restorePurchases\<close> and \<open>getProducts\<close> return at
  once: the service, with the list of calls it has made, is unchanged, and the results are
  the failure outcome with platform \<open>web\<close>, the empty restored list with its error message,
  and the empty product list.
\<close>

theorem non_native_short_circuit:
  assumes "\<not> isNative s"
  shows "purchase e pid s =
           (Inr \<lparr>success = False, productId = None, transactionId = None, platform = Web,
                 raw = None, error = Some ''Purchases are only available on mobile devices.''\<rparr>, s)
         \<and> restorePurchases e s =
           (Inr \<lparr>restored = [], restore_error = Some ''Restore is only available on mobile devices''\<rparr>, s)
         \<and> getProducts describe e ids s = (Inr [], s)"
  using assms by (simp add: purchase_def restorePurchases_def getProducts_def)

theorem non_native_short_circuit_witness:
  "\<not> isNative (new_IAPService web_env)
   \<and> purchase web_env ''cozy_premium_monthly'' (new_IAPService web_env) =
       (Inr \<lparr>success = False, productId = None, transactionId = None, platform = Web,
             raw = None, error = Some ''Purchases are only available on mobile devices.''\<rparr>,
        new_IAPService web_env)
   \<and> trace (snd (restorePurchases web_env (new_IAPService web_env))) = []
   \<and> fst (getProducts (\<lambda>requestedId pkg. requestedId) web_env [''cozy_premium_monthly''] (new_IAPService web_env)) = Inr []"
proof -
  have native: "\<not> isNative (new_IAPService web_env)"
    by (simp add: new_IAPService_def web_env_def)
  have empty: "trace (new_IAPService web_env) = []"
    by (simp add: new_IAPService_def)
  show ?thesis
    using native empty
      non_native_short_circuit [OF native, of web_env "''cozy_premium_monthly''"
        "\<lambda>requestedId pkg. requestedId" "[''cozy_premium_monthly'']"]
    by simp
qed

text \<open>
  C10. On a native runtime \<open>restorePurchases\<close> always returns a result: a failure of the
  configuration, of the import of the SDK or of the SDK's restore gives the empty list
  with the error's message (\<open>Failed to restore purchases\<close> when it has none), and a
  successful restore gives the \<open>productIdentifier\<close> of each active entitlement that carries
  one, in order, with no error.
\<close>

theorem restorePurchases_native:
  assumes "isNative s"
  shows "(\<exists>r. fst (restorePurchases e s) = Inr r)
    \<and> (\<forall>err. fst (ensureConfigured e s) = Inl err
            \<or> (fst (ensureConfigured e s) = Inr () \<and> import_result e = Inl err)
            \<or> (fst (ensureConfigured e s) = Inr () \<and> import_result e = Inr ()
                 \<and> restorePurchases_result e = Inl err)
          \<longrightarrow> fst (restorePurchases e s) =
                Inr \<lparr>restored = [],
                     restore_error = Some (js_or_default (message err) ''Failed to restore purchases'')\<rparr>)
    \<and> (\<forall>info. fst (ensureConfigured e s) = Inr () \<and> import_result e = Inr ()
             \<and> restorePurchases_result e = Inr info
          \<longrightarrow> fst (restorePurchases e s) =
                Inr \<lparr>restored = carried_products (case info of None \<Rightarrow> [] | Some es \<Rightarrow> es),
                     restore_error = None\<rparr>)"
proof (intro conjI allI impI)
  show "\<exists>r. fst (restorePurchases e s) = Inr r"
    by (simp add: restorePurchases_def split: prod.splits sum.splits)
next
  fix err
  assume "fst (ensureConfigured e s) = Inl err
            \<or> (fst (ensureConfigured e s) = Inr () \<and> import_result e = Inl err)
            \<or> (fst (ensureConfigured e s) = Inr () \<and> import_result e = Inr ()
                 \<and> restorePurchases_result e = Inl err)"
  then have "fst (restore_try e s) = Inl err"
    by (auto simp add: restore_try_def sdk_def Let_def split: prod.splits sum.splits)
  then obtain s1 where "restore_try e s = (Inl err, s1)"
    by (cases "restore_try e s") auto
  with assms show "fst (restorePurchases e s) =
                Inr \<lparr>restored = [],
                     restore_error = Some (js_or_default (message err) ''Failed to restore purchases'')\<rparr>"
    by (simp add: restorePurchases_def split: prod.splits sum.splits)
next
  fix info
  assume "fst (ensureConfigured e s) = Inr () \<and> import_result e = Inr ()
             \<and> restorePurchases_result e = Inr info"
  then have "fst (restore_try e s) =
      Inr \<lparr>restored = carried_products (case info of None \<Rightarrow> [] | Some es \<Rightarrow> es), restore_error = None\<rparr>"
    by (auto simp add: restore_try_def sdk_def Let_def restore_loop_acc split: prod.splits sum.splits)
  then obtain s1 where "restore_try e s =
      (Inr \<lparr>restored = carried_products (case info of None \<Rightarrow> [] | Some es \<Rightarrow> es), restore_error = None\<rparr>, s1)"
    by (cases "restore_try e s") auto
  with assms show "fst (restorePurchases e s) =
                Inr \<lparr>restored = carried_products (case info of None \<Rightarrow> [] | Some es \<Rightarrow> es),
                     restore_error = None\<rparr>"
    by (simp add: restorePurchases_def split: prod.splits sum.splits)
qed

theorem restorePurchases_native_witness:
  "isNative (new_IAPService android_env)
   \<and> fst (restorePurchases android_env (new_IAPService android_env)) =
       Inr \<lparr>restored = [''cozy_premium_monthly''], restore_error = None\<rparr>"
proof -
  have native: "isNative (new_IAPService android_env)"
    by (simp add: new_IAPService_def android_env_def)
  have ok: "import_result android_env = Inr ()"
    "restorePurchases_result android_env =
       Inr (Some [(''premium'', Some premium_entitlement), (''legacy'', None)])"
    by (simp_all add: android_env_def)
  have ids: "carried_products [(''premium'', Some premium_entitlement), (''legacy'', None)] =
      [''cozy_premium_monthly'']"
    by (simp add: carried_products_def carried_product_def truthy_def premium_entitlement_def)
  from restorePurchases_native [OF native, of android_env] android_fresh_configures ok ids native
  show ?thesis
    by simp
qed

section \<open>Submitting the sign-in form\<close>

text \<open>
  C8. A submission with an empty email or an empty password shows the \<open>Missing info\<close>
  notification and nothing else: no sign-in or sign-up call is made.
\<close>

theorem empty_credentials_rejected_locally:
  assumes "email s = [] \<or> password s = []"
  shows "handleSubmit e s =
           s\<lparr>isSubmitting := False,
             shown := shown s @ [Toast ''Missing info'' ''Please enter an email and password.'']\<rparr>
         \<and> filter is_remote_call (shown (handleSubmit e s)) = filter is_remote_call (shown s)"
  using assms by (auto simp add: handleSubmit_def submit_try_def emit_def)

theorem empty_credentials_rejected_locally_witness:
  "password signin_form_no_password = []
   \<and> shown (handleSubmit auth_ok signin_form_no_password) =
       [Toast ''Missing info'' ''Please enter an email and password.'']
   \<and> filter is_remote_call (shown (handleSubmit auth_ok signin_form_no_password)) = []"
proof -
  have pw: "password signin_form_no_password = []"
    by (simp add: signin_form_no_password_def)
  then have "email signin_form_no_password = [] \<or> password signin_form_no_password = []"
    by simp
  from empty_credentials_rejected_locally [OF this, of auth_ok] pw show ?thesis
    by (simp add: signin_form_no_password_def)
qed

text \<open>
  C9. In sign-up mode, when the remote sign-up call resolves (whatever it resolves to),
  the one \<open>Check your email\<close> notification is shown and the mode becomes sign-in.
\<close>

theorem signup_success_confirmation:
  assumes "mode s = Signup" and "email s \<noteq> []" and "password s \<noteq> []"
    and "signUp_result e = Inr ()"
  shows "handleSubmit e s =
           s\<lparr>mode := Signin, isSubmitting := False,
             shown := shown s @
               [SignUpCall (trim (email s)) (password s),
                Toast ''Check your email''
                  ''We sent a confirmation email. After confirming, come back and sign in.'']\<rparr>"
  using assms by (simp add: handleSubmit_def submit_try_def emit_def)

theorem signup_success_confirmation_witness:
  "mode signup_form = Signup \<and> signUp_result auth_ok = Inr ()
   \<and> mode (handleSubmit auth_ok signup_form) = Signin
   \<and> shown (handleSubmit auth_ok signup_form) =
       [SignUpCall ''a@b.com'' ''x'',
        Toast ''Check your email''
          ''We sent a confirmation email. After confirming, come back and sign in.'']"
proof -
  have h: "mode signup_form = Signup" "email signup_form \<noteq> []" "password signup_form \<noteq> []"
    "signUp_result auth_ok = Inr ()"
    by (simp_all add: signup_form_def auth_ok_def)
  have t: "trim ''a@b.com'' = ''a@b.com''"
    by (rule trim_plain)
  from signup_success_confirmation [OF h] h t show ?thesis
    by (simp add: signup_form_def)
qed

end
